theory Spec2Isabelle
  imports Complex_Main "HOL-Library.Multiset"
begin

section \<open>Python values, errors and the world the notebooks run in\<close>

text \<open>
  The notebooks are Python scripts that call third-party libraries (requests, os.path,
  k2flix, astropy) and touch two pieces of outside state: the local file system and the
  remote archive. The model makes both explicit.

  \<^item> Python floats that the code only passes on or compares are \<open>real\<close>; a keyword
    argument that defaults to \<open>None\<close> is an \<open>option\<close>.
  \<^item> A \<open>bytes\<close> value and a \<open>str\<close> are both \<open>string\<close> (a list of 8-bit characters).
  \<^item> A dictionary with string keys, heterogeneous values and insertion order is an
    association list of \<open>pyval\<close>s.
  \<^item> An exception is a value of \<open>pyerror\<close>, returned as \<open>Inl\<close>.
  \<^item> The file system is a map from path to contents. Opening a file for writing and
    writing to it can fail; whether they do is the operating system's answer, a
    parameter of the model. Every call that reaches a third-party library with an
    outside effect is appended to the world's \<open>trace\<close>.
\<close>

datatype pyval = Num real | Str string

type_synonym dict = "(string \<times> pyval) list"

datatype pyerror =
    ValueError string
  | RequestException string
  | OSError string
  | FileNotFoundError string

datatype call =
    Requests_get string dict
  | Save_movie string

record world =
  files :: "string \<rightharpoonup> string"
  trace :: "call list"

text \<open>
  The third-party functions the code calls are parameters of the model:
  \<^item> \<open>format_6f x\<close> is \<^verbatim>\<open>"{:.6f}".format(x)\<close>;
  \<^item> \<open>path_join a b\<close> is \<^verbatim>\<open>os.path.join(a, b)\<close>;
  \<^item> \<open>requests_get u p\<close> is the body \<^verbatim>\<open>requests.get(u, params=p).content\<close>, or the
    exception that the call raises;
  \<^item> \<open>movie_of f\<close> is the GIF that k2flix renders from the target pixel file \<open>f\<close>;
  \<^item> \<open>open_error p\<close> is the exception that the operating system makes
    \<^verbatim>\<open>open(p, "wb")\<close> raise, if any (a missing directory, a directory in the file's
    place, no permission);
  \<^item> \<open>write_error p b\<close> is the exception that writing \<open>b\<close> to the open file \<open>p\<close> and
    closing it raises, if any, with the bytes that reached the file.
\<close>

record libs =
  format_6f :: "real \<Rightarrow> string"
  path_join :: "string \<Rightarrow> string \<Rightarrow> string"
  requests_get :: "string \<Rightarrow> dict \<Rightarrow> pyerror + string"
  movie_of :: "string \<Rightarrow> string"
  open_error :: "string \<Rightarrow> pyerror option"
  write_error :: "string \<Rightarrow> string \<Rightarrow> (pyerror \<times> string) option"

text \<open>\<^verbatim>\<open>bytes.startswith\<close> and \<^verbatim>\<open>sep.join(words)\<close>.\<close>

fun startswith :: "string \<Rightarrow> string \<Rightarrow> bool" where
  "startswith s [] = True"
| "startswith [] (p # ps) = False"
| "startswith (x # xs) (p # ps) = (x = p \<and> startswith xs ps)"

fun join :: "string \<Rightarrow> string list \<Rightarrow> string" where
  "join sep [] = []"
| "join sep [x] = x"
| "join sep (x # y # ys) = x @ sep @ join sep (y # ys)"

section \<open>getdss (interm\_tesscut\_dss\_overlay.ipynb)\<close>

definition url :: string where
  "url = ''https://archive.stsci.edu/cgi-bin/dss_search''"

definition plateDict :: "(string \<times> string) list" where
  "plateDict =
     [(''red'', ''2r''),
      (''blue'', ''2b''),
      (''ukred'', ''poss2ukstu_red''),
      (''ukblue'', ''poss2ukstu_blue'')]"

text \<open>
  The three blocks of \<open>getdss\<close> before the request, in the order of the source:
  the defaults for height and width, the file name, and the query parameters.
  \<^verbatim>\<open>
    if height is None:
        if width is not None:
            height = width
        else:
            height = 7.0
            width = 7.0
    elif width is None:
        width = height
  \<close>
\<close>

definition default_size :: "real option \<Rightarrow> real option \<Rightarrow> real \<times> real" where
  "default_size height width =
     (case height of
        None \<Rightarrow> (case width of Some wd \<Rightarrow> (wd, wd) | None \<Rightarrow> (7, 7))
      | Some ht \<Rightarrow> (case width of None \<Rightarrow> (ht, ht) | Some wd \<Rightarrow> (ht, wd)))"

text \<open>
  \<^verbatim>\<open>
    if filename is None:
        filename = "dss_{}_{:.6f}_{:.6f}.fits".format(plate,ra,dec)
    if directory:
        filename = os.path.join(directory, filename)
  \<close>
  \<open>if directory:\<close> is false for \<open>None\<close> and for the empty string.
\<close>

definition dss_filename ::
  "libs \<Rightarrow> real \<Rightarrow> real \<Rightarrow> string \<Rightarrow> string option \<Rightarrow> string option \<Rightarrow> string" where
  "dss_filename L ra dec plate filename directory =
     (let name = (case filename of
                    None \<Rightarrow> ''dss_'' @ plate @ ''_'' @ format_6f L ra @ ''_'' @ format_6f L dec @ ''.fits''
                  | Some fn \<Rightarrow> fn)
      in case directory of
           None \<Rightarrow> name
         | Some dir \<Rightarrow> if dir = [] then name else path_join L dir name)"

definition dss_params :: "real \<Rightarrow> real \<Rightarrow> string \<Rightarrow> real \<Rightarrow> real \<Rightarrow> dict" where
  "dss_params ra dec vplate height width =
     [(''r'', Num ra),
      (''d'', Num dec),
      (''v'', Str vplate),
      (''e'', Str ''J2000''),
      (''h'', Num height),
      (''w'', Num width),
      (''f'', Str ''fits''),
      (''c'', Str ''none''),
      (''s'', Str ''yes'')]"

text \<open>
  \<^verbatim>\<open>open(filename, "wb")\<close>: Python itself raises \<open>ValueError\<close> on a name with a NUL
  byte, before the operating system is asked; otherwise the operating system refuses, or
  the file is created empty (an existing one is truncated).
\<close>

definition open_wb :: "libs \<Rightarrow> string \<Rightarrow> world \<Rightarrow> pyerror + world" where
  "open_wb L path wld =
     (if CHR 0x00 \<in> set path then Inl (ValueError ''embedded null byte'')
      else case open_error L path of
             Some err \<Rightarrow> Inl err
           | None \<Rightarrow> Inr (wld\<lparr>files := (files wld)(path \<mapsto> [])\<rparr>))"

text \<open>\<^verbatim>\<open>fhout.write(r.content); fhout.close()\<close> on the file that was opened.\<close>

definition write_close :: "libs \<Rightarrow> string \<Rightarrow> string \<Rightarrow> world \<Rightarrow> pyerror option \<times> world" where
  "write_close L path content wld =
     (case write_error L path content of
        Some (err, reached) \<Rightarrow> (Some err, wld\<lparr>files := (files wld)(path \<mapsto> reached)\<rparr>)
      | None \<Rightarrow> (None, wld\<lparr>files := (files wld)(path \<mapsto> content)\<rparr>))"

text \<open>
  The function itself. A plate that is not a key of \<open>plateDict\<close> raises before anything
  else happens; the request is sent next; the body is checked for the FITS signature;
  only then is the file opened and written, and either step can raise.
\<close>

definition getdss ::
  "libs \<Rightarrow> real \<Rightarrow> real \<Rightarrow> string \<Rightarrow> real option \<Rightarrow> real option \<Rightarrow> string option \<Rightarrow>
   string option \<Rightarrow> world \<Rightarrow> (pyerror + string) \<times> world" where
  "getdss L ra dec plate height width filename directory wld =
     (let (height', width') = default_size height width
      in case map_of plateDict plate of
           None \<Rightarrow>
             (Inl (ValueError (''Illegal plate value '' @ [CHR 0x27] @ plate @ [CHR 0x27, CHR 0x0A]
                     @ ''Should be one of '' @ join '', '' (map fst plateDict))), wld)
         | Some vplate \<Rightarrow>
             (let filename' = dss_filename L ra dec plate filename directory;
                  params = dss_params ra dec vplate height' width';
                  wld1 = wld\<lparr>trace := trace wld @ [Requests_get url params]\<rparr>
              in case requests_get L url params of
                   Inl err \<Rightarrow> (Inl err, wld1)
                 | Inr content \<Rightarrow>
                     if \<not> startswith content ''SIMPLE  =''
                     then (Inl (ValueError (''No FITS file returned for '' @ filename')), wld1)
                     else (case open_wb L filename' wld1 of
                             Inl err \<Rightarrow> (Inl err, wld1)
                           | Inr wld2 \<Rightarrow>
                               (case write_close L filename' content wld2 of
                                  (Some err, wld3) \<Rightarrow> (Inl err, wld3)
                                | (None, wld3) \<Rightarrow> (Inr filename', wld3)))))"

text \<open>The requests a run has added to the trace.\<close>

fun get_requests :: "call list \<Rightarrow> (string \<times> dict) list" where
  "get_requests [] = []"
| "get_requests (Requests_get u p # cs) = (u, p) # get_requests cs"
| "get_requests (Save_movie g # cs) = get_requests cs"

fun is_ValueError :: "pyerror + 'a \<Rightarrow> bool" where
  "is_ValueError (Inl (ValueError msg)) = True"
| "is_ValueError other = False"

section \<open>The GIF cells (interm\_tesscut\_dss\_overlay.ipynb)\<close>

text \<open>
  \<^verbatim>\<open>str.replace(old, new)\<close> for a non-empty \<open>old\<close>: every non-overlapping occurrence,
  from the left. (Python's result for an empty \<open>old\<close> is not needed: the notebook
  replaces \<open>'.fits'\<close>.)
\<close>

function replace :: "string \<Rightarrow> string \<Rightarrow> string \<Rightarrow> string" where
  "replace old new [] = []"
| "replace old new (x # xs) =
     (if old \<noteq> [] \<and> startswith (x # xs) old
      then new @ replace old new (drop (length old) (x # xs))
      else x # replace old new xs)"
  by pat_completeness auto
termination
  by (relation "measure (\<lambda>(old, new, s). length s)") (auto simp: neq_Nil_conv)

text \<open>
  \<^verbatim>\<open>
    gif = tpf.filename.replace('.fits', '.gif')
    if not os.path.exists(gif):
        tpf.save_movie(gif, show_flags=True)
  \<close>
  \<open>save_movie\<close> renders the movie and writes it to the path; it is taken to succeed.
\<close>

definition gif_name :: "string \<Rightarrow> string" where
  "gif_name tpf_filename = replace ''.fits'' ''.gif'' tpf_filename"

definition save_movie :: "libs \<Rightarrow> string \<Rightarrow> string \<Rightarrow> world \<Rightarrow> world" where
  "save_movie L tpf_filename gif wld =
     wld\<lparr>files := (files wld)(gif \<mapsto> movie_of L tpf_filename),
         trace := trace wld @ [Save_movie gif]\<rparr>"

definition create_gif_cell :: "libs \<Rightarrow> string \<Rightarrow> world \<Rightarrow> world" where
  "create_gif_cell L tpf_filename wld =
     (let gif = gif_name tpf_filename
      in if files wld gif = None then save_movie L tpf_filename gif wld else wld)"

text \<open>
  \<^verbatim>\<open>
    if not os.path.exists(gif):
        print("No gif found. Cannot display gif of time-series.")
    Image(gif, embed=True)
  \<close>
  The cell's result is what it prints and the image it shows: \<open>Image\<close> with
  \<open>embed=True\<close> reads the file, and raises when there is none.
\<close>

definition display_gif_cell :: "string \<Rightarrow> world \<Rightarrow> string list \<times> (pyerror + string)" where
  "display_gif_cell tpf_filename wld =
     (let gif = gif_name tpf_filename
      in case files wld gif of
           None \<Rightarrow> ([''No gif found. Cannot display gif of time-series.''], Inl (FileNotFoundError gif))
         | Some bytes \<Rightarrow> ([], Inr bytes))"

section \<open>The ephemeris table (wildcard\_searches.ipynb)\<close>

text \<open>
  An astropy \<open>Table\<close> is a list of rows. Of the observation table only the columns the
  notebook reads are kept. \<open>Table.sort\<close> is astropy's; it is a parameter.
  \<^verbatim>\<open>
    mask = observations["target_name"] == "COMET-67P-CHURYUMOV-GERASIMENK"
    filtered_observations = observations[mask]
    filtered_observations.sort("t_min")
    ephemeris = Table([filtered_observations["s_ra"],
                       filtered_observations["s_dec"],
                       filtered_observations["t_min"]], names=("ra", "dec", "t_min"))
    ephemeris.sort("t_min")
  \<close>
\<close>

record observation =
  target_name :: string
  s_ra :: real
  s_dec :: real
  t_min :: real

record ephemeris_row =
  eph_ra :: real
  eph_dec :: real
  eph_t_min :: real

definition filtered_observations :: "observation list \<Rightarrow> observation list" where
  "filtered_observations observations =
     filter (\<lambda>row. target_name row = ''COMET-67P-CHURYUMOV-GERASIMENK'') observations"

definition ephemeris :: "observation list \<Rightarrow> ephemeris_row list" where
  "ephemeris sorted_observations =
     map (\<lambda>row. \<lparr>eph_ra = s_ra row, eph_dec = s_dec row, eph_t_min = t_min row\<rparr>) sorted_observations"

text \<open>
  What \<open>Table.sort\<close> promises: the result is ordered by the key column and holds the
  same rows. The notebook passes no \<open>kind\<close>, and the default kind of \<open>numpy.argsort\<close>,
  which orders the rows, is documented as not stable; so nothing more is assumed. The
  \<open>t_min\<close> column holds real numbers: a table with a NaN or a masked \<open>t_min\<close> is outside
  the model.
\<close>

definition sorts_by :: "('row \<Rightarrow> real) \<Rightarrow> ('row list \<Rightarrow> 'row list) \<Rightarrow> bool" where
  "sorts_by key table_sort \<longleftrightarrow>
     (\<forall>rows. sorted (map key (table_sort rows)) \<and> mset (table_sort rows) = mset rows)"

text \<open>
  A stable sort promises more: the rows of each key value are the input's, in the
  input's order.
\<close>

definition stable_sort_by :: "('row \<Rightarrow> real) \<Rightarrow> ('row list \<Rightarrow> 'row list) \<Rightarrow> bool" where
  "stable_sort_by key table_sort \<longleftrightarrow>
     (\<forall>rows. sorted (map key (table_sort rows))
          \<and> (\<forall>k. filter (\<lambda>row. key row = k) (table_sort rows) = filter (\<lambda>row. key row = k) rows))"

section \<open>A sample instance of the libraries and of the world\<close>

text \<open>
  Concrete values for the parameters, used to run the model on the notebook's own call
  (\<^verbatim>\<open>ra, dec = 66.582618, -67.806508\<close>): a formatter that knows these two coordinates, POSIX \<open>os.path.join\<close> for two
  components, an archive that answers every request with the same body, a renderer
  that returns a fixed GIF, and an operating system that lets every file be written.
\<close>

definition tess_ra :: real where
  "tess_ra = 66.582618"

definition tess_dec :: real where
  "tess_dec = - 67.806508"

definition sample_format_6f :: "real \<Rightarrow> string" where
  "sample_format_6f x =
     (if x = tess_ra then ''66.582618''
      else if x = tess_dec then ''-67.806508''
      else ''0.000000'')"

definition posix_join :: "string \<Rightarrow> string \<Rightarrow> string" where
  "posix_join a b =
     (if startswith b ''/'' then b
      else if a = [] \<or> last a = CHR ''/'' then a @ b
      else a @ ''/'' @ b)"

definition sample_libs :: "string \<Rightarrow> libs" where
  "sample_libs body =
     \<lparr>format_6f = sample_format_6f,
      path_join = posix_join,
      requests_get = (\<lambda>u p. Inr body),
      movie_of = (\<lambda>tpf. ''GIF89a''),
      open_error = (\<lambda>path. None),
      write_error = (\<lambda>path bytes. None)\<rparr>"

definition empty_world :: world where
  "empty_world = \<lparr>files = Map.empty, trace = []\<rparr>"

text \<open>
  Two sorts to run the table model with: the library's stable insertion sort, and a
  sort that orders by the key but returns rows of equal key in the reverse of the
  input's order. A small observation table with two exposures that start together.
\<close>

definition reversing_sort :: "('row \<Rightarrow> real) \<Rightarrow> 'row list \<Rightarrow> 'row list" where
  "reversing_sort key rows = sort_key key (rev rows)"

definition sample_observations :: "observation list" where
  "sample_observations =
     [\<lparr>target_name = ''COMET-67P-CHURYUMOV-GERASIMENK'', s_ra = 2, s_dec = 5, t_min = 57000\<rparr>,
      \<lparr>target_name = ''67P'', s_ra = 3, s_dec = 6, t_min = 56500\<rparr>,
      \<lparr>target_name = ''COMET-67P-CHURYUMOV-GERASIMENK'', s_ra = 1, s_dec = 4, t_min = 56000\<rparr>,
      \<lparr>target_name = ''COMET-67P-CHURYUMOV-GERASIMENK'', s_ra = 8, s_dec = 9, t_min = 56000\<rparr>]"

definition gif_world :: world where
  "gif_world = \<lparr>files = [''cutout.gif'' \<mapsto> ''an older movie''], trace = []\<rparr>"

section \<open>The notebooks and the table of contents, as written\<close>

text \<open>
  Claims about what the notebooks contain are settled on their text. Each notebook is
  given by the sources of its code cells and of its markdown cells, in the order of the
  file: a cell is the list of its lines, a line is a string without its newline, and a
  character outside printable ASCII is written as its UTF-8 bytes. The file under
  \<open>src/unnamed\<close> is the notebook of solutions to the asteroid rotation tutorial.
  \<open>toc_yml\<close> is \<open>_toc.yml\<close>, line by line.
\<close>

definition interm_tesscut_dss_overlay_code :: "string list list" where
  \<open>interm_tesscut_dss_overlay_code =
   [[''# import the packages we need'',
     ''import os'',
     ''import numpy as np'',
     ''import requests'',
     ''import k2flix'',
     ''%matplotlib inline'',
     ''import matplotlib.pyplot as plt'',
     '''',
     ''# astroquery'',
     ''from astroquery.mast import Tesscut'',
     ''from astroquery.mast import Catalogs'',
     '''',
     ''# Astropy'',
     ''import astropy.units as u'',
     ''from astropy.io import fits'',
     ''from astropy.wcs import WCS'',
     ''from astropy.coordinates import SkyCoord'',
     ''from astropy.visualization import simple_norm'',
     '''',
     ''from reproject import reproject_interp'',
     '''',
     ''from IPython.display import Image'',
     ''from ipywidgets import interact, interactive, fixed, interact_manual''],
    [''# select a target and cutout size in pixels'',
     ''ra, dec = 66.582618, -67.806508'',
     ''target = \'{0}, {1}\'.format(ra, dec)'',
     ''x = y = 11'',
     '''',
     ''# set local file path to current working directory'',
     ''path = os.path.abspath(os.path.curdir)''],
    [''# create a sky coordinate object'',
     ''cutout_coords = SkyCoord(ra, dec, unit="deg")'',
     ''    '',
     ''# download the files and get the list of local paths'',
     ''try:'',
     ''    table = Tesscut.download_cutouts(coordinates=cutout_coords, size=x, path=path)'',
     ''except Exception as e:'',
     ''    print(\'Error: Could not download cutouts: {0}\'.format(e))'',
     ''else:'',
     ''    print(table)'',
     ''    files = table[\'Local Path\']''],
    [''# grab the first file in the list'',
     ''filename = files[0]'',
     '''',
     ''# create the TargetPixelFile instance'',
     ''tpf = k2flix.TargetPixelFile(filename)'',
     '''',
     ''# get number of pixels in flux array '',
     ''n_pix = tpf.flux().shape[0]'',
     '''',
     ''# compute field of view in degrees'',
     ''res = 21.0 * (u.arcsec/u.pixel)'',
     ''area = res * (n_pix * u.pixel)'',
     ''d = area.to(u.degree)'',
     ''fov = d.value '',
     '''',
     ''# compute the wcs of the image'',
     ''wcs = WCS(tpf.hdulist[\'APERTURE\'].header)'',
     '''',
     ''# print some info'',
     ''print(\'filename\', tpf.filename)'',
     ''print(\'Target TPF\', target)'',
     ''print(\'Field of View [degrees]\', fov)'',
     ''print(\'Number pixels\', tpf.flux().shape)''],
    [''# create the gif'',
     ''gif = tpf.filename.replace(\'.fits\', \'.gif\')'',
     ''if not os.path.exists(gif):'',
     ''    tpf.save_movie(gif, show_flags=True)''],
    [''# display the gif'',
     ''if not os.path.exists(gif):'',
     ''    print("No gif found. Cannot display gif of time-series.")'',
     '''',
     ''Image(gif, embed=True)''],
    [''catalogData = Catalogs.query_region(target, radius=fov/2., catalog="Tic")'',
     ''print(\'n_targets\', len(catalogData))'',
     ''print(\'example rows:'' @ [CHR 0x5C] @ ''n\', catalogData[0:5][\'ID\', \'ra\', \'dec\'])''],
    [''# get RA and Dec coords of catalog data'',
     ''tic_ra = catalogData[\'ra\']'',
     ''tic_dec = catalogData[\'dec\']'',
     '''',
     ''# get pixel coordinates of RA and Dec '',
     ''coords = wcs.all_world2pix(list(zip(tic_ra, tic_dec)),0)'',
     ''xc = [c[0] for c in coords]'',
     ''yc = [c[1] for c in coords]''],
    [''# get first frame of flux from TPF'',
     ''data = tpf.hdulist[\'PIXELS\'].data["FLUX"][0,:,:]'',
     '''',
     ''# use log image normalization'',
     ''norm = simple_norm(data, \'log\')'',
     '''',
     ''# plot with wcs or not'',
     ''use_wcs = False'',
     '''',
     ''# plot image and overlay TIC points'',
     ''ax = plt.subplot(projection=wcs if use_wcs else None)'',
     ''ax.imshow(data, origin=\'lower\', norm=norm, cmap=\'gray\')'',
     ''#ax.scatter(tic_ra, tic_dec, transform=ax.get_transform(\'world\'), s=20, facecolor=\'red\', edgecolor=\'white\')'',
     ''ax.scatter(xc, yc, s=20, facecolor=\'red\', edgecolor=\'white\')'',
     '''',
     '''',
     ''ax.figure.set_size_inches((10,10))'',
     '''',
     ''# deal with axes'',
     ''if use_wcs:'',
     ''    xax = ax.coords[0]'',
     ''    yax = ax.coords[1]'',
     ''    xax.set_ticks(spacing=1.*u.arcmin)'',
     ''    yax.set_ticks(spacing=0.5 * u.arcmin)'',
     ''    xax.set_axislabel(\'Right Ascension\')'',
     ''    yax.set_axislabel(\'Declination\')'',
     ''else:'',
     ''    ax.set_xlabel(\'x pixel\')'',
     ''    ax.set_ylabel(\'y pixel\')''],
    [''# Pixel plot'',
     ''ax1 = plt.subplot(1,2,1)'',
     ''ax1.imshow(data, origin=\'lower\', norm=norm,  cmap=\'gray\')'',
     ''ax1.scatter(xc, yc, s=20, facecolor=\'red\', edgecolor=\'white\')'',
     ''ax1.set_xlabel(\'x\')'',
     ''ax1.set_ylabel(\'y\')'',
     ''ax1.set_title(\'TessCut-Pixel\')'',
     '''',
     ''# WCS plot'',
     ''ax2 = plt.subplot(1,2,2, projection=wcs)'',
     ''ax2.imshow(data, origin=\'lower\', norm=norm,  cmap=\'gray\')'',
     ''ax2.coords[\'ra\'].set_axislabel(\'Right Ascension\')'',
     ''ax2.coords[\'dec\'].set_axislabel(\'Declination\')'',
     ''ax2.scatter(tic_ra, tic_dec, transform=ax2.get_transform(\'world\'), s=20, facecolor=\'red\', edgecolor=\'white\')'',
     ''ax2.set_title(\'TessCut-WCS\')'',
     '''',
     ''ax1.figure.set_size_inches((15,15))'',
     ''ax2.figure.set_size_inches((15,15))''],
    [''url = "https://archive.stsci.edu/cgi-bin/dss_search"'',
     ''plateDict = {"red": "2r", '',
     ''             "blue": "2b", '',
     ''             "ukred": "poss2ukstu_red", '',
     ''             "ukblue": "poss2ukstu_blue"}'',
     '''',
     ''def getdss(ra, dec, plate="red", height=None, width=None, '',
     ''           filename=None, directory=None):'',
     '''',
     ''    """Extract DSS image at position and write a FITS file'',
     ''    '',
     ''    ra, dec are J2000 coordinates in degrees'',
     ''    plate can be "red", "blue", "ukred", or "ukblue"'',
     ''    height and width are in arcmin, default = 7.0.  Image is square if only one is specified.'',
     ''    filename specifies name for output file (default="dss_{plate}_{ra}_{dec}.fits")'',
     ''    directory is location for output file (default is current directory)'',
     ''    '',
     ''    Returns the name of the file that was written'',
     ''    """'',
     '''',
     ''    # set defaults for height & width'',
     ''    if height is None:'',
     ''        if width is not None:'',
     ''            height = width'',
     ''        else:'',
     ''            height = 7.0'',
     ''            width = 7.0'',
     ''    elif width is None:'',
     ''        width = height'',
     '''',
     ''    try:'',
     ''        vplate = plateDict[plate]'',
     ''    except KeyError:'',
     ''        raise ValueError("Illegal plate value \'{}'' @ [CHR 0x27, CHR 0x5C] @ ''nShould be one of {}".format('',
     ''            plate,\', \'.join(plateDict.keys())))'',
     '''',
     ''    # construct filename'',
     ''    if filename is None:'',
     ''        filename = "dss_{}_{:.6f}_{:.6f}.fits".format(plate,ra,dec)'',
     ''    if directory:'',
     ''        filename = os.path.join(directory, filename)'',
     '''',
     ''    params={"r": ra,'',
     ''            "d": dec,'',
     ''            "v": vplate,'',
     ''            "e": "J2000",'',
     ''            "h": height,'',
     ''            "w": width,'',
     ''            "f":"fits",'',
     ''            "c":"none",'',
     ''            "s": "yes"}'',
     ''    r = requests.get(url, params=params)'',
     '''',
     ''    # read and format the output'',
     ''    value = r.content'',
     ''    if not r.content.startswith(b"SIMPLE  ="):'',
     ''        raise ValueError("No FITS file returned for {}".format(filename))'',
     ''    fhout = open(filename, "wb")'',
     ''    fhout.write(r.content)'',
     ''    fhout.close()'',
     ''    return filename''],
    [''# compute the pixel area in arcmin'',
     ''arcmin = area.to(u.arcmin).value'',
     '''',
     ''# retrieve the DSS file'',
     ''filename = getdss(ra, dec, height=arcmin, width=arcmin, directory=path)'',
     ''print(\'DSS Image:\', filename)''],
    [''dss = fits.open(filename)'',
     '''',
     ''# get the data and WCS for the DSS image'',
     ''dss_data = dss[0].data'',
     ''dss_wcs = WCS(dss[0].header)'',
     '''',
     ''# display the DSS image and overlay the TIC objects'',
     ''ax = plt.subplot(projection=dss_wcs)'',
     ''ax.imshow(dss_data, origin=\'lower\')'',
     ''ax.scatter(tic_ra, tic_dec, transform=ax.get_transform(\'world\'), s=20, facecolor=\'red\', edgecolor=\'white\')'',
     ''ax.figure.set_size_inches((8,8))'',
     ''ax.set_xlabel(\'Right Ascension\')'',
     ''ax.set_ylabel(\'Declination\')''],
    [''# reproject the tesscut onto dss'',
     ''reproj_tesscut, footprint = reproject_interp((data, wcs,), dss_wcs, shape_out=dss_data.shape, order=\'nearest-neighbor\')''],
    [''# create the function to overlay dss + tesscut + tic catalog'',
     ''def create_plot(background_img, foreground_img, alpha, norm, wcs, ra, dec):'',
     ''    '' @ [CHR 0x27, CHR 0x27] @ ''\' create an interactive matplotlib image plot'',
     ''    '',
     ''    Parameters:'',
     ''        background_img (ndarray):'',
     ''            The background image data to show'',
     ''        foreground_img (ndarray):'',
     ''            The foreground image data to overplot. '',
     ''        alpha (tuple):'',
     ''            A tuple of min, max for the interactive slider.  '',
     ''        norm:'',
     ''            The image normalization to use for the overlaid image.'',
     ''        wcs (astropy.wcs.wcs.WCS):'',
     ''            The WCS of the background image'',
     ''        ra (list):'',
     ''            A list of RA coordinate objects'',
     ''        dec (list):'',
     ''            A list of Dec coordinate objects'',
     ''    '' @ [CHR 0x27, CHR 0x27, CHR 0x27],
     ''    # create plot'',
     ''    ax = plt.subplot(projection=wcs)'',
     ''    ax.figure.set_size_inches((8,8))'',
     '''',
     ''    # show image 1'',
     ''    ax.imshow(background_img, origin=\'lower\')'',
     '''',
     ''    # overlay image 2'',
     ''    ax.imshow(foreground_img, origin=\'lower\', alpha=alpha, norm=norm, cmap=\'gray\')'',
     '''',
     ''    # overlay a list of objects'',
     ''    ax.scatter(ra, dec, transform=ax.get_transform(\'world\'), s=20, facecolor=\'red\', edgecolor=\'white\')'',
     '''',
     ''    # add axis labels'',
     ''    ax.set_xlabel(\'Right Ascension\')'',
     ''    ax.set_ylabel(\'Declination\')''],
    [''# create an interactive ipywidget plot for the opacity of tesscut'',
     ''interactive_plot = interactive(create_plot, background_img=fixed(dss_data), foreground_img=fixed(reproj_tesscut), '',
     ''                               alpha=(0.0,1.0), norm=fixed(norm), wcs=fixed(dss_wcs), '',
     ''                               ra=fixed(tic_ra), dec=fixed(tic_dec))'',
     ''# display the plot'',
     ''output = interactive_plot.children[-1]'',
     ''output.layout.height = \'500px'' @ [CHR 0x27],
     ''interactive_plot'']]\<close>

definition wildcard_searches_code :: "string list list" where
  \<open>wildcard_searches_code =
   [[''import astropy.units as u'',
     ''import matplotlib.pyplot as plt'',
     '''',
     ''from astropy.coordinates import SkyCoord'',
     ''from astropy.table import Table, unique, vstack'',
     ''from astropy.time import Time'',
     ''from astroquery.mast import Observations''],
    [''Observations.get_metadata("observations")''],
    [''observations = Observations.query_criteria(proposal_pi="Espinoza, Nestor",'',
     ''                                           instrument_name="NIRISS*")'',
     ''observations''],
    [''set(observations[\'instrument_name\'])''],
    [''observations = Observations.query_criteria(proposal_pi=\'Espinoza, Nestor\','',
     ''                                           instrument_name=\'NIR*\') # Surely only one instrument begins with \'NIR'' @ [CHR 0x27],
     ''set(observations[\'instrument_name\'])''],
    [''observations = Observations.query_criteria(proposal_pi=\'Espinoza, Nestor\','',
     ''                                           instrument_name=\'NIRISS*\','',
     ''                                           proposal_id=[\'15%%\']) # Only a four digit result will match this'',
     '''',
     ''set(observations[\'proposal_id\']), set(observations[\'instrument_name\'])''],
    [''observations = Observations.query_criteria(target_name="*67P*",'',
     ''                                           instrument_name="ACS/WFC")'',
     '''',
     ''print(f"{len(observations)} total observations" + "'' @ [CHR 0x5C] @ ''n")'',
     ''print("Listed target names:")'',
     ''print(set(observations[\'target_name\']))''],
    [''mask = observations["target_name"] == "COMET-67P-CHURYUMOV-GERASIMENK"'',
     ''filtered_observations = observations[mask]'',
     ''filtered_observations''],
    [''filtered_observations.sort("t_min")''],
    [''ephemeris = Table([filtered_observations["s_ra"],'',
     ''                   filtered_observations["s_dec"],'',
     ''                   filtered_observations["t_min"]], names=("ra", "dec", "t_min"))''],
    [''ephemeris.sort("t_min")'',
     ''ephemeris''],
    [''plt.figure(figsize=(12,8))'',
     ''plt.scatter(ephemeris[0:18][\'ra\'], ephemeris[0:18][\'dec\'], color=\'royalblue\', s=200, lw=1., edgecolor=\'k\')'',
     '''',
     ''plt.xlabel("Right Ascension (deg)", fontsize=20)'',
     ''plt.ylabel("Declination (deg)", fontsize=20)'',
     '''',
     ''plt.title("Sky Coordinates", fontsize=20)'',
     '''',
     ''plt.xticks(fontsize=15)'',
     ''plt.yticks(fontsize=15)'',
     ''plt.grid()''],
    [''ephemeris.write(\'ephemeris-comet67p-cg.csv\', format=\'ascii\')  '']]\<close>

definition notebook_template_code :: "string list list" where
  \<open>notebook_template_code =
   [[''%matplotlib inline'',
     '''',
     ''import matplotlib.pyplot as plt'',
     ''import numpy as np'',
     '''',
     ''from astropy.io import fits'',
     ''from astropy.table import Table'',
     ''from astroquery.mast import Mast'',
     ''from astroquery.mast import Observations''],
    [''keplerObs = Observations.query_criteria(target_name=\'kplr008957091\', obs_collection=\'Kepler\')'',
     ''keplerProds = Observations.get_product_list(keplerObs[0])'',
     ''yourProd = Observations.filter_products(keplerProds,extension=\'kplr008957091-2012277125453_lpd-targ.fits.gz\','',
     ''                                        mrp_only=False)''],
    [''yourProd[0:5]''],
    [''# Download the products'',
     ''output = Observations.download_products(yourProd, mrp_only=False, cache=False)'',
     ''output''],
    [''file = output[\'Local Path\'][0]'',
     ''print(\'The HDU list of our output file:'' @ [CHR 0x5C] @ ''n\')'',
     ''print(fits.info(file))'',
     '''',
     ''data = fits.getdata(file, 1)[\'FLUX\']'',
     ''time = fits.getdata(file, 1)[\'TIME\']''],
    [''imgs = 4'',
     '''',
     ''fig, axs = plt.subplots(1, imgs, figsize=(20, 20))'',
     '''',
     ''for idx in range(0, imgs):'',
     ''    # Plotting'',
     ''    axs[idx].imshow(data[idx], cmap=\'bone\', origin=\'lower\')'',
     ''    '',
     ''    # Formatting'',
     ''    axs[idx].set_title(f\'Image #{idx}\', fontsize=25)'',
     ''    axs[idx].tick_params(axis=\'both\', which=\'major\', labelsize=20)''],
    [''lightcurve = []'',
     '''',
     ''for idx in range(0, len(data)):'',
     ''    '',
     ''    flux = data[idx][4, 4]'',
     ''    lightcurve.append(flux)''],
    [''# Plotting'',
     ''plt.figure(1, figsize=(10, 6))'',
     ''plt.plot(time, lightcurve)'',
     '''',
     ''# Formatting'',
     ''obj = fits.getheader(file)[\'OBJECT\']'',
     ''plt.title(f\'Object: {obj}\', fontsize=25)'',
     ''plt.xlabel(\'Time - 2454833 (BKJD days)\', fontsize=20)'',
     ''plt.ylabel(\'Flux (e-/s)\', fontsize=20)'',
     ''plt.tick_params(axis=\'both\', which=\'major\', labelsize=15)'']]\<close>

definition part_000_code :: "string list list" where
  \<open>part_000_code =
   [[''from astropy.io import fits'',
     ''from astropy.table import Table'',
     ''import astropy.units as u'',
     ''import matplotlib.pyplot as plt'',
     ''import numpy as np'',
     '''',
     ''from astroquery.mast import Tesscut'',
     ''from astropy.visualization import time_support'',
     ''import lightkurve as lk'',
     '''',
     ''%matplotlib inline''],
    [''objname=\'Eleonora'' @ [CHR 0x27],
     '''',
     ''hdulist = Tesscut.get_cutouts(objectname=objname, moving_target=True, size=10)'',
     '''',
     ''nsectors=len(hdulist)'',
     ''for i in range(nsectors): '',
     ''    hdulist[i].writeto(f"{objname}_{i}.fits", overwrite=True)'',
     ''    '',
     ''for i in range(nsectors):'',
     ''    tpf = lk.TessTargetPixelFile(f"{objname}_{i}.fits")'',
     ''    if i==0: '',
     ''        tpfc=lk.TargetPixelFileCollection([tpf])'',
     ''    else:'',
     ''        tpfc.append(tpf)''],
    [''for i in range(nsectors):'',
     ''    lc=tpfc[i].to_lightcurve()'',
     ''    if i==0: '',
     ''        lcc=lk.LightCurveCollection([lc])'',
     ''    else:'',
     ''        lcc.append(lc)    '',
     ''lcc[0]=lcc[0].truncate(after=293,column=\'cadenceno\')'',
     ''lcc[1]=lcc[1].truncate(before=59,column=\'cadenceno\')'',
     ''lcc[1]=lcc[1].remove_outliers(sigma_upper=2)''],
    [''# Place for code for Exercise 1'',
     ''# The easiest way to do this is to inspect the first TPF and see that '',
     ''# cadence 293 is the last one before one column of the image becomes cut off.'',
     ''tpfc[0].interact()''],
    [''# SOLUTION FOR EXERCISE 2'',
     ''time_support()'',
     ''plt.plot(lc.time,lc.flux)'',
     ''plt.plot(lcc[1].time,lcc[1].flux)'',
     ''plt.ylim(30000,36000) # Need to zoom in to see the two.''],
    [''# SOLUTION FOR EXERCISE 3'',
     ''pg0=lcc[0].to_periodogram()'',
     ''pg1=lcc[1].to_periodogram()'',
     ''print(pg0.period_at_max_power.to(u.hr))'',
     ''print(pg1.period_at_max_power.to(u.hr))'',
     ''# To 3 significant figures, lightkurve returns the same period (in hours) '',
     ''# with either light curve individually or with the two light curves combined.''],
    [''# SOLUTION FOR EXERCISE 4'',
     '''',
     ''# Using the default filenames from the website at the time of the writing of this tutorial:'',
     ''diff1=fits.FITSDiff(\'Eleonora_0.fits\',\'Eleonora_1468.2870040465345-1475.8494727152606_10.0-x-10.0_astrocut.fits\',numdiffs=-1)'',
     ''print(diff1.identical)'',
     ''print(diff1.report())'',
     '''',
     ''# The only differences appera to be in "CHECKSUM" and "DATASUM" values, which seem to correspond to the '',
     ''# timestamps when the files were saved. Try ignoring those values. '',
     ''diff1_ignore=fits.FITSDiff(\'Eleonora_0.fits\','',
     ''                           \'Eleonora_1468.2870040465345-1475.8494727152606_10.0-x-10.0_astrocut.fits\','',
     ''                           numdiffs=-1,ignore_keywords=[\'CHECKSUM\',\'DATASUM\'])'',
     ''print(diff1_ignore.identical)'',
     ''# Do the same for the other file.'',
     ''diff2_ignore=fits.FITSDiff(\'Eleonora_1.fits\','',
     ''                           \'Eleonora_1945.4743041992188-1954.8493041992188_10.0-x-10.0_astrocut.fits\','',
     ''                           numdiffs=-1,ignore_keywords=[\'CHECKSUM\',\'DATASUM\'])'',
     ''print(diff2_ignore.identical)''],
    [''# SOLUTION FOR EXERCISE 5'',
     ''objname2=\'Hippodamia'' @ [CHR 0x27],
     ''sector_table2=Tesscut.get_sectors(objectname=objname2, moving_target=True)'',
     ''print(sector_table2)'',
     ''# Because there is only one sector, we do not need the loops'',
     ''# that we did for Eleonora. '',
     ''hdulist2 = Tesscut.get_cutouts(objectname=objname2, moving_target=True, size=10)''],
    [''i=0'',
     ''hdulist2[i].writeto(objname2+\'_\'+str(i)+\'.fits\',overwrite=True)'',
     ''tpf2 = lk.TessTargetPixelFile(objname2+\'_\'+str(i)+\'.fits\')'',
     ''tpf2.interact()''],
    [''lc2=tpf2.to_lightcurve()'',
     ''lc2=lc2.truncate(before=365,after=460,column=\'cadenceno\')'',
     ''lc2.plot()''],
    [''pg2=lc2.to_periodogram()'',
     ''pg2.plot()'',
     ''print(pg2.period_at_max_power.to(u.hr))'',
     ''print(2*pg2.period_at_max_power.to(u.hr))''],
    [''# Again, our result is close to 1/2 times to the accepted period. '',
     ''lc2.fold(period=2*pg2.period_at_max_power).scatter()''],
    [''# SOLUTION FOR EXERCISE 6.'',
     ''from astroquery.mpc import MPC'',
     ''# Get tables for each start and end time. Just view the first row.'',
     ''eph1=MPC.get_ephemeris(\'Eleonora\',start=lcc[0].time[0])'',
     ''eph2=MPC.get_ephemeris(\'Eleonora\',start=lcc[0].time[-1])'',
     ''eph3=MPC.get_ephemeris(\'Eleonora\',start=lcc[1].time[0])'',
     ''eph4=MPC.get_ephemeris(\'Eleonora\',start=lcc[1].time[-1])'',
     ''columns=[\'Date\',\'RA\',\'Dec\',\'Delta\',\'r\',\'Elongation\',\'Phase\',\'V\']'',
     ''print(eph1[columns][0])'',
     ''print(eph2[columns][0])'',
     ''print(eph3[columns][0])'',
     ''print(eph4[columns][0])''],
    [''# Compare the medians of the two fluxes.'',
     ''print(np.median(lcc[0].flux))'',
     ''print(np.median(lcc[1].flux))'',
     ''print((np.median(lcc[1].flux)-np.median(lcc[0].flux))/np.median(lcc[0].flux))'']]\<close>

definition interm_tesscut_dss_overlay_markdown :: "string list list" where
  \<open>interm_tesscut_dss_overlay_markdown =
   [[''<a id="title_ID"></a>'',
     ''# Intermediate: Overlay a Cutout of the TESS FFIs with DSS imaging'',
     '''',
     ''This notebook shows the user how to use the MAST programmatic interface to create a cutout of the small section of the TESS FFIs. For this example we will determine the RA and Dec for TIC 261105201. We then perform a query to determine which sectors contain this RA and Dec, peform a cutout of the FFI time series, open the resulting target pixel files, and plot the first image of each file with the WCS overlayed on the image. Finally we will create a light curve from the resulting image by creating a photometric aperture and summing the light in our pixels.  '',
     '''',
     ''This tutorial shows the users how to do the following: use `astroquery.catalogs` to query the TIC, use astroquery Tesscut to determine the number of sectors that contain our target and download a FFI cutout.'',
     '''',
     '''',
     ''### Table of Contents '',
     ''[Get Tesscut with Astroquery](#get_tesscut) <br>'',
     ''   '',
     ''- [Download Tesscut](#download_tess)<br>'',
     ''- [Make Kepler TPF](#make_tpf)<br>'',
     ''- [Make GIF](#make_gif)<br> '',
     ''- [Find TIC objects](#find_tic)<br>'',
     ''- [Overlay TessCut and TIC](#plot_tpf_tic)<br>'',
     '''',
     ''[Get DSS image](#get_dss) <br>'',
     ''[Overlay Tesscut and DSS](#overlay_images) <br>'',
     ''[Additional Resources](#resources) <br>'',
     ''[About this Notebook](#about_ID) ''],
    ['''',
     ''## TESSCut Overlay with DSS'',
     ''This notebook is an example of accessing and displaying a TESS FFI Cutout using the MAST TessCut service built into astroquery.  It uses astroquery to retrieve the related objects from the Tess Input Catalog (TIC). We then grab the related DSS image and overlay the TIC objects and the TESSCut image altogether.   ''],
    [''## Import Statements'',
     ''<a id="imports_ID"></a>'',
     '''',
     ''We start with a few import statements.'',
     ''- *os* to handle path and file operations'',
     ''- *requests* to handle HTTP get requests'',
     ''- *numpy* to handle array functions'',
     ''- *matplotlib.pyplot* for plotting the data'',
     ''- *k2flix* to load and create a Target Pixel File object and make GIFs '',
     ''- *astroquery.mast* for the Catalogs and for Tesscut.'',
     ''- *astropy.units* for using proper astronomy units'',
     ''- *astropy.io fits* for accessing FITS files'',
     ''- *astropy.wcs WCS* to interpret the World Coordinate Systems'',
     ''- *astropy.coordinates SkyCoord* for creating an on-sky coordinate'',
     ''- *astropy.visualizaton simple_norm* for normalizing data for plots'',
     ''- *reproject reproject_interp* for reprojecting images from one WCS coordinate system into another'',
     ''- *IPython.display Image* for loading a GIF image in the notebook'',
     ''- *ipywidgets* to create an interactive plot with widget slider ''],
    [''<a id="get_tesscut"></a>'',
     ''## Getting a Custom TESS Cutout Target Pixel File'',
     ''The first step is to get the Target Pixel File.  We can download a custom target pixel file using the **Astroquery** python package. In particular we will use the ``download_tesscut`` method from the [Tesscut](https://astroquery.readthedocs.io/en/latest/mast/mast.html#tesscut) module.  Let\'s create a Tess cutout centered on RA, Dec = 66.582618, -67.806508 in a 11x11 pixel window.    ''],
    [''<a id="download_tesscut"></a>'',
     ''### Use Astroquery to retrieve the TESSCut image'',
     ''The ``download_cutouts`` method requires as input an Astropy SkyCoord object, a cutout size in pixels and optionally accepts a download path.  This will download the custom cutout into the specified path and returns and Astropy table object with the paths to all the downloaded files.   ''],
    [''<a id="make_tpf"></a>'',
     ''### Open a Target Pixel File '',
     ''We\'ll be using Kepler\'s [k2flix](https://barentsen.github.io/k2flix/) Python package to open and access the file, using the ``TargetPixelFile`` class.  This is a convenience class that allows use to easily create a GIF.  Kepler provides a range of [software tools](https://keplerscience.arc.nasa.gov/software.html) that should also work with TESS data. We instantiate a new object and print some basic information about the custom TPF.  We need the WCS of the new TESS cutout, so we use Astropy WCS to define and create the wcs using the APERTURE extension of the cutout file.''],
    [''<a id="make_gif"></a>'',
     ''### Create and display a GIF of the custom TPF'',
     ''Using k2flix and the TPF instance, we can create a GIF of the time-series data in the cutout with the ``save_movie`` method.  Once it\'s generated, we use the IPython Image class to display the gif in the notebook cell.''],
    [''<a id="find_tic"></a>'',
     ''### Find targets within TPF FOV in TESS Input Catalog'',
     ''We also want to retrieve all objects from the TESS Input Catalog that are within the custom TESS cutout field of view.  We can use **Astroquery** [Catalogs.query_region](https://astroquery.readthedocs.io/en/latest/mast/mast.html#catalog-queries) to do this.  This takes a string input of RA, Dec, and a search radius in degrees, and which catalog to search on.  Since our fov is the total width/height of the cutout, we use ``fov/2.`` to get a radius. ''],
    [''<a id="plot_tpf_tic"></a>'',
     ''### Plot static TPF image and overlay TIC catalog'',
     ''Let\'s overylay the catalog search results with the custom TESS cutout.  We first need to convert the RA, Dec of all the catalog objects into pixel coordinates on the TESS cutout image.  We can do this using the [Astropy WCS](http://docs.astropy.org/en/stable/wcs/) object, with the ``all_world2pix`` method.  ''],
    [''Let\'s use matplotlib to plot the first frame in the time-series of the cutout.  We use ``matplotlib.pyplot.imshow``.  Now that we have the catalog object positions in pixel coordinates, we can overlay them as a scatter plot with ``matplotlib.pyplot.scatter``.  We\'ve optionally included a ``use_wcs`` flag to create the plot using the WCS.  See [Matplotlib Plots With WCS](http://docs.astropy.org/en/stable/wcs/#matplotlib-plots-with-correct-wcs-projection) for more details.  We can pass a WCS object as a matplotlib axis projection.  Try setting ``use_wcs = True``.  This will create the plot using the World Coordinates as the x,y axes. ''],
    [''The TESS FFI images currently have an issue with its WCS that shift transformations by ~1 pixel.  To illustrate this point, we\'ll compare the TESS cutout overlay with the TIC objects in pixel coordinates and world coordinates.  The left panel plots the cutout with the correct overlay of TIC objects.  The right panel plots the cutout using its WCS transformation.  The TIC objects are shifted by about a pixel relative to the underlying cutout.  This issue will present itself when using the WCS to overlay the cutout onto other data or vice versa.  The underlying cause of this issue is still being explored.  ''],
    [''<a id="get_dss"></a>'',
     ''## Retrieve the DSS image of the region'',
     ''To overlay the TESSCut image against the DSS image, we need to query the STScI DSS Cutout Image service.  First we define a custom function, ``getdss``, to perform call.  This performs a basic http GET request to the given url and retrieves a DSS image cutout given some input parameters.  ''],
    [''We pass in our target RA and Dec, along with the desired image size in arcminutes, and an optional download path.  ''],
    [''Let\'s display the DSS image and overlay the TIC catalog objects as a sanity check.  We use the same matplotlib plotting methods as before.  As before, this uses [WCSAxes](http://docs.astropy.org/en/stable/visualization/wcsaxes/index.html#wcsaxes) from Astropy to create a plot with correct WCS and overlay coordinate objects.  This time we create a DSS WCS object and use that when creating the plot.  We can also directly pass into a coordinate list of RA, Dec and transform the coordinates into the proper pixels using the DSS WCS.   ''],
    [''<a id="overlay_images"></a>'',
     ''## Overlay the TessCut Image'',
     ''To overlay the TESS Cutout against the DSS, we need to reproject the WCS of the TESS cutout onto the WCS of the DSS image, and the [reproject](https://reproject.readthedocs.io/en/stable/index.html) package.  We use the [reproject_interp](https://reproject.readthedocs.io/en/stable/api/reproject.reproject_interp.html#reproject.reproject_interp) method.  See [here](https://reproject.readthedocs.io/en/stable/celestial.html) for more details. '',
     '''',
     ''``reproject_interp`` takes two basic inputs.  '',
     ''- input data+WCS we want to project from'',
     ''- output WCS we want to project onto.  '',
     '''',
     ''We want to project our TESS cutout and its WCS into the coordinate frame of the DSS image, using the DSS WCS.  Our input is a tuple of the custom TESS cutout data and wcs, i.e. ``(data, wcs)``.  The desired coordinate frame is the WCS we want to project onto, i.e. ``dss_wcs``.  We also need to provide the shape of the DSS data, with `shape_out`.  Finally we need to provide an interpolation method.  We use a ``nearest-neighbor`` interpolation, which is the lowest order possible.  '',
     '''',
     ''``reproject_interp`` will take the input 11x11 pixel TESS cutout data, convert it to world coordinates using the TESS WCS, interpolate it into the shape of the DSS image (229x229) using the DSS WCS, and convert the data into DSS pixel coordinates.  '',
     '''',
     ''The final output is the reprojected TESS cutout data (``reproj_tesscut``) and the overlapping footprint of the input data in the output data (``footprint``).  ''],
    [''Once reprojected, we can properly overly the DSS and TESSCut images.  We can add a slider for the opacity of the overlay using ipywidgets.  First we make a `create_plot` function which accepts all the inputs we need to display the DSS image, and overlay the TESS cutout image and TIC objects.  ''],
    [''We use ipywidgets to create an interactive slider widget for the alpha/opacity of the TESS cutout image.  We use the [interactive](https://ipywidgets.readthedocs.io/en/stable/examples/Using%20Interact.html#interactive) function to produce an interactive widget.  It takes as input the main function we want to make interactive, in our case, ``create_plot``.  You also need to pass in all the inputs to your custom function.  '',
     '''',
     ''To create a slider for alpha we pass in a tuple of **(min, max)** representing the minimum and maximum slider ranges.  All other inputs to our ``create_plot`` function should be fixed.  We do not want interaction on these elements.  So we wrap all other inputs in the [fixed](https://ipywidgets.readthedocs.io/en/stable/examples/Using%20Interact.html#Fixing-arguments-using-fixed) function from ``ipywidgets``.  This tells ipywidgets to use fix those inputs. '',
     '''',
     ''Our input background data is the DSS image data, ``dss_data``.  The input image to overlay on top is the reprojected TESS data, ``reproj_tesscut``.  We also pass in `norm`, the TESS cutout image normalization from before, as well as DSS wcs (`dss_wcs`), and the list of RA and Dec of the TIC objects, ``tic_ra, tic_dec``. '',
     '''',
     ''Try moving the slider back and forth to control the opacity of the TESS cutout image against the DSS image. ''],
    [''<a id="resources"></a>'',
     ''## Additional Resources'',
     ''[TESScut API Documentation](https://mast.stsci.edu/tesscut/)<br>'',
     ''[Astrocut Documentation](https://astrocut.readthedocs.io/en/latest/)<br>'',
     ''[TESS Homepage](https://archive.stsci.edu/tess)<br>'',
     ''[TESS Archive Manual](https://outerspace.stsci.edu/display/TESS/TESS+Archive+Manual)''],
    [''<a id="about_ID"></a>'',
     ''## About this Notebook'',
     ''**Author:** Brian Cherinka, STScI Archive Scientist'',
     ''<br>**Last Updated:** May 2023''],
    [''[Top of Page](#title_ID)'',
     ''<img style="float: right;" src="https://raw.githubusercontent.com/spacetelescope/notebooks/master/assets/stsci_pri_combo_mark_horizonal_white_bkgd.png" alt="STScI logo" width="200px"/> '']]\<close>

definition wildcard_searches_markdown :: "string list list" where
  \<open>wildcard_searches_markdown =
   [[''# Wildcard Handling with Astroquery.mast''],
    [''----''],
    [''## Learning Goals''],
    [''By the end of this tutorial, you will:'',
     '''',
     ''* Use the wildcards available for `astroquery.mast.Observations` criteria queries'',
     ''* Broaden and refine `astroquery.mast.Observations` criteria queries'',
     ''* Fully utilize the `instrument_name` criteria, especially for JWST queries'',
     ''* Query for moving targets using target ephemeris and time criteria such as `t_min` and `t_max`''],
    [''## Introduction''],
    [''This Notebook demonstrates the use of wildcards in `astroquery.mast.Observations` criteria queries. The use of wildcards is encouraged for certain criteria types (namely, `string` object types) to ensure your query returns all results. '',
     '''',
     ''We will demonstrate 3 use-cases for wildcards when doing criteria queries and emphasize certain criteria where wildcard usage is highly encouraged, particularly for JWST queries. We will also use the last example to demonstrate the use of value ranges when working with `float` object criteria types.'',
     '''',
     ''The workflow for this notebook consists of:'',
     '''',
     ''* [Wildcard overview with `astroquery.mast.Observations`](#overview)'',
     ''    1. [Wildcard Search with `instrument_name`](#case1)'',
     ''    2. [Wildcard Search with `instrument_name` and `proposal_id`](#case2)'',
     ''    3. [Wildcard Search a Time-sensitive Object with `target_name` and `t_min`](#case3)'',
     ''* Resources''],
    [''## Imports''],
    [''----''],
    [''<a id="overview"></a>'',
     ''## Wildcards with `astroquery.mast.Observations`''],
    [''The use of wildcards when making `astroquery.mast.Observations` queries can help ensure you retrieve all observations without leaving anything out. The available wildcards are `%` and `*`: `%` replaces a single character, while `*` replaces more than one character preceding, following, or in between the existing characters, depending on its placement. See the [Observation Criteria Queries](https://astroquery.readthedocs.io/en/latest/mast/mast.html#observation-criteria-queries) section in the `astroquery.mast` documentation for more information on the wildcards.'',
     '''',
     ''Wildcards are only available for certain criteria. `string` type objects accept wildcards, but `float`, `integer`, or any other objects do not accept wildcards.'',
     '''',
     ''Users may call the `get_metadata` method to see the list of query criteria and their data types. The criteria listed as `string` objects under the **Data Type** column are criteria that can be called with wildcards:''],
    [''<a id="case1"></a>'',
     ''### Case 1: Wildcard Search with `instrument_name`''],
    [''For our first example we will search for all NIRISS observations taken by a certain proposal/program PI. Our two query criteria are `proposal_pi` and `instrument_name`, which are both `string` object criteria. As such, both can be wildcarded for ease of use. '',
     '''',
     ''In fact, it is sometimes necessary to use wildcards when searching on `instrument_name`. Both HST and JWST use instrument configurations in this field to allow for more precise advanced searches (e.g. NIRISS/IMAGE and STIS/FUV-MAMA). When performing a "generic" search, you must include a wildcard or these more detailed results will be excluded.'',
     '''',
     ''We will demonstrate this by looking at the results for the query below:''],
    [''Our query returned many NIRISS observations led by the PI Dr. Espinoza. Let\'s get all the unique values under the `instrument_name` column to see what our `*` wildcard picked up.''],
    [''Our observations have the advanced labeling; had we simply set `instrument_name = "NIRISS"`, we would have missed several observations. For more details on this advanced labeling, see the [JWST Instrument Names page](https://outerspace.stsci.edu/display/MASTDOCS/JWST+Instrument+Names).''],
    [''#### A note of caution: There is such a thing as too many wildcards'',
     '''',
     ''You can be too generous with the wildcards, so be sure to exercise caution in their use. Too much ambiguity can lead to unintended results. Let\'s take a look at our example below.''],
    [''This query returns `NIRSPEC/SLIT` observations in addition to the NIRISS ones, which is not what we intended.''],
    [''<a id="case2"></a>'',
     ''### Case 2: Wildcard Search with `instrument_name` and `proposal_id`''],
    [''Let\'s add an additional `string` criterion and wildcard into the mix. We\'ll do this with the `proposal_id` field which, despite its numeric content, is encoded as a string.'',
     '''',
     ''Let\'s query for a four digit proposal/program IDs that begin with `15`.''],
    [''<a id="case3"></a>'',
     ''### Case 3: Create a Moving Target Ephemeris using MAST Observations with Wildcard Search''],
    [''We will be querying for image observations of Comet 67P Churyumov-Gerasimenko observed through the Hubble Space Telescope\'s Advanced Camera for Surveys (ACS) Wide Field Camera (WFC). This comet\'s name can be listed in different ways, so we will use `*` wildcards in our criteria query.''],
    [''Above there are two names we get for Comet-67P. You should exercise caution when searching on the `target_name` criteria, since this is often entered by the PI who proposed the observation and can vary from person to person.'',
     '''',
     ''In the remainder of this notebook, we will construct a bare-bones ephemeris using the filtered MAST observations of this object and their metadata. We will then do some reverse engineering to query for the target based on coordinates using the ephemeris table, and hope that we get the same results back! Let\'s begin:'',
     '''',
     ''For simplicity, let\'s work only with the `\'COMET-67P-CHURYUMOV-GERASIMENK\'` observations to create our ephemeris.''],
    [''Now that we have our filtered observations, let\'s sort the rows of this table based on the `t_min` criteria, which refers to the start time of the exposure in MJD.''],
    [''Now that we\'ve sorted our table, let\'s construct a basic ephemeris showing the path of our object over time (with `t_min`, or exposure start in MJD, as our time component):''],
    [''Let\'s display the contents of our ephemeris, and use it to generate a plot of the comet\'s path:''],
    [''You can choose to save the ephemeris table in your current working directory by running the cell below:''],
    [''## Resources''],
    [''The following is a list of resources that were referenced throughout the tutorial, as well as some additional references that you may find useful:'',
     '''',
     ''* [`astroquery.mast.Observation` criteria queries](https://astroquery.readthedocs.io/en/latest/mast/mast.html#observation-criteria-queries)'',
     ''* [JWST Instrument Names](https://outerspace.stsci.edu/display/MASTDOCS/JWST+Instrument+Names)''],
    [''## Citations''],
    [''If you use any of astroquery\'s tools for published research, please cite the authors. Follow this link for more information about citing astroquery:'',
     '''',
     ''* [Citing astroquery](https://github.com/astropy/astroquery/blob/main/astroquery/CITATION)''],
    [''## About This Notebook''],
    [''If you have comments or questions on this notebook, please contact us through the Archive Help Desk e-mail at archive@stsci.edu. <br>'',
     ''<br>'',
     ''Author: Jenny V. Medina <br>'',
     ''Keywords: astroquery, wildcards, moving target <br>'',
     ''Last Updated: Jun 2023'']]\<close>

definition notebook_template_markdown :: "string list list" where
  \<open>notebook_template_markdown =
   [[''<a id="top"></a>'',
     ''# Tutorial Title'',
     ''***'',
     ''## Learning Goals'',
     ''Write three to five learning goals. A learning goal should describe what a reader should know or be able to do by the end of the tutorial that they didn\'t know or couldn\'t do before:'',
     '''',
     ''```'',
     ''By the end of this tutorial, you will:'',
     '''',
     ''- Understand how to use aperture photometry to turn a series of two-dimensional'',
     ''  images into a one-dimensional time series.'',
     ''- Be able to determine the most useful aperture for photometry on a *Kepler/K2*'',
     ''  target.'',
     ''- Create your own light curve for a single quarter/campaign of *Kepler/K2* data.'',
     ''```''],
    [''## Introduction'',
     ''Write a short introduction explaining the purpose of the tutorial. Define any terms or common acronyms that your audience may not know. If you\'re using some kind of domain-specific astronomical symbol or unusual mathematical concept, make sure you define it (for example, in its mathematical form) and link to any definitions (from literature, Wikipedia, etc.).'',
     '''',
     ''If there are background materials or resources that may be useful to the reader to provide additional context, you may link to it here. If your tutorial is a continuation from another tutorial, or there are other tutorials that would be useful for the reader to read before or after your tutorial, mention that here as well.'',
     '''',
     ''Finally, under this section you should add a description of the workflow in your notebook. This will essentially be a table of contents outlining the functional cells of the notebook, i.e. the main sections. Each section should link users to the actual section for easier navigation through the notebook. Refer to the example below for how to hyperlink sections on a Jupyter Notebook: '',
     '''',
     '''',
     ''The workflow for this notebook consists of:'',
     ''* [Main Content](#Main-Content)'',
     ''    * [Loading Data](#Loading-Data)'',
     ''    * [File and Data Information](#File-and-Data-Information)'',
     ''* [Visualization](#Visualization)'',
     ''* [Exercises](#Exercises)'',
     ''* [Additional Resources](#Additional-Resources)''],
    [''## Imports'',
     ''Describe the main packages we\'re using here and their use-case for this notebook. If there\'s something unusual, explain what the library is, and why we need it.'',
     ''- *numpy* to handle array functions'',
     ''- *astropy.io fits* for accessing FITS files'',
     ''- *astropy.table Table* for creating tidy tables of the data'',
     ''- *matplotlib.pyplot* for plotting data''],
    [''***''],
    [''## Main Content'',
     '''',
     ''The main content of your tutorial should be subdivided into sections with useful, descriptive headings that make sense based on the content. Break sections up with standard Markdown syntax headings:'',
     '''',
     ''```'',
     ''## Section 1'',
     '''',
     ''Intro to Section 1'',
     '''',
     ''### Subsection 1a'',
     '''',
     ''More detailed info about Section 1'',
     '''',
     ''## Section 2'',
     '''',
     ''A complete thought that\'s as important as Section 1 but doesn\'t need subsections.'',
     '''',
     ''```''],
    [''### Loading Data'',
     '''',
     ''Loading data and file information should appear within your main content, at the same time the data is going to be used, if possible. These elements of your tutorial can be their own sections within the main content, but avoid generic or vague headings like '' @ [CHR 0xE2, CHR 0x80, CHR 0x9C] @ ''Loading Data'' @ [CHR 0xE2, CHR 0x80, CHR 0x9D] @ '' and instead use descriptive headings pertinent to the content of the tutorial and the actual data being downloaded or files being used.'',
     '''',
     ''If the user needs to download data to run the tutorial properly, where possible, use [astroquery](https://astroquery.readthedocs.io/en/latest/) (or similar) to retrieve files. If this is not possible, see the [data guide](https://github.com/spacetelescope/style-guides/blob/master/guides/where-to-put-your-data.md) for other options.''],
    [''For example, if we wanted to query for data from MAST for Kepler we might do something like:''],
    [''### File and Data Information''],
    [''Where possible (if the code supports it), use code examples that visually display the data in the tutorial. For example, if you are showing an object such as a Table, display a preview of the table:''],
    [''Explain pertinent details about the file you\'ve just downloaded. For example, if working with Kepler light curves, explain what\'s in the different file extensions:'',
     '''',
     ''```'',
     ''- No. 0 (Primary): This HDU contains metadata related to the entire file.'',
     ''- No. 1 (Light curve): This HDU contains a binary table that holds data like'',
     ''  flux measurements and times. We will extract information from here when we'',
     ''  define the parameters for the light curve plot.'',
     ''- No. 2 (Aperture): This HDU contains the image extension with data collected'',
     ''  from the aperture. We will also use this to display a bitmask plot that'',
     ''  visually represents the optimal aperture used to create the SAP_FLUX column in'',
     ''  HDU1.'',
     '''',
     ''```''],
    [''## Visualization'',
     '''',
     ''When presenting any visuals and/or plots from the data, make sure you are using color palettes that are color-blind friendly and using language that keeps accessibility in mind. The most common form of color vision deficiency involves differentiating between red and green, so avoiding colormaps with both red and green will avoid many problems in general. Use descriptive keywords not pertaining to the color of the object you are referring to. It is good practice to make your plots and images large enough to ensure that important details are not hard to see. On the same note, make sure that tick labels, legends, and other plot notations are not too small, and make sure they are descriptive enough that the user can understand what is being represented by the data. ''],
    [''Let\'s plot the first four images of the Kepler TPF we just downloaded to see where the center of the PSF is located...''],
    [''Looks like it\'s typically located around (x,y)=(4,4). Let\'s gather all the images and extract the flux at (4,4) from each of them to patch our lightcurve together...''],
    [''## Exercises'',
     ''Exercises are optional, but encouraged. Exercises can be woven into the main content of your tutorial, or appear in their own section toward the end of the tutorial. Final exercises can be more challenging, similar to homework problems. They can be minimal or take as long as 30 minutes to an hour to complete. If you do have one or more exercises in your tutorial, be sure to leave a blank code cell underneath each to show the reader that they\'re meant to try out their new skill right there. You may also want to include a "solutions" notebook next to your main notebook for the reader to check their work after they have finished their attempt.''],
    [''## Additional Resources'',
     '''',
     ''This section is optional. Try to weave resource links into the main content of your tutorial so that they are falling in line with the context of your writing. For resources that do not fit cleanly into your narrative, you may include an additional resources section at the end of your tutorial. Usually a list of links using Markdown bullet list plus link format is appropriate:'',
     '''',
     ''- [MAST API](https://mast.stsci.edu/api/v0/index.html)'',
     ''- [Kepler Archive Page (MAST)](https://archive.stsci.edu/kepler/)'',
     ''- [Kepler Archive Manual](https://archive.stsci.edu/kepler/manuals/archive_manual.pdf)'',
     ''- [Exo.MAST website](https://exo.mast.stsci.edu/)''],
    [''## Citations'',
     ''Provide your reader with guidelines on how to cite open source software and other resources in their own published work.'',
     '''',
     ''```'',
     ''If you use `astropy` or `lightkurve` for published research, please cite the'',
     ''authors. Follow these links for more information about citing `astropy` and'',
     ''`lightkurve`:'',
     '''',
     ''* [Citing `astropy`](https://www.astropy.org/acknowledging.html)'',
     ''* [Citing `lightkurve`](http://docs.lightkurve.org/about/citing.html)'',
     '''',
     ''```''],
    [''## About this Notebook'',
     ''Let the world know who the author of this great tutorial is! If possible and appropriate, include a contact email address for users who might need support (for example, `archive@stsci.edu`). You can also optionally include keywords, your funding source, or a last update date in this section.'',
     '''',
     ''**Author(s):** Jessie Blogs, Jenny V. Medina, Thomas Dutkiewicz <br>'',
     ''**Keyword(s):** Tutorial, lightkurve, kepler, introduction, template <br>'',
     ''**Last Updated:** Aug 2022 <br>'',
     ''**Next Review:** Mar 2023'',
     ''***'',
     ''[Top of Page](#top)'',
     ''<img style="float: right;" src="https://raw.githubusercontent.com/spacetelescope/notebooks/master/assets/stsci_pri_combo_mark_horizonal_white_bkgd.png" alt="Space Telescope Logo" width="200px"/> '']]\<close>

definition part_000_markdown :: "string list list" where
  \<open>part_000_markdown =
   [[''<a id="Top"></a>'',
     '''',
     ''# Finding the Rotation Curve of an Asteroid or Comet with TESScut and lightkurve: Solutions''],
    [''Before the solutions can be run, this code reproduces the necessary variables from the tutorial into this notebook.'',
     '''',
     ''# Contents'',
     ''* [Imports, prerequisite cells](#Imports,-Prerequisite-Cells)'',
     ''1. [Confirm lightcurve truncation is appropriate.](#1)'',
     ''2. [Confirm remove_outlier cutoff value is appropriate.](#2)'',
     ''3. [Is rotation period changed by sector?](#3)'',
     ''4. [Use the TESSCut website to download more observations.](#4)'',
     ''5. [Find the rotation period of Hippodamia.](#5)'',
     ''6. [Why is the median flux of first sector\'s observations lower than the second?](#6)'',
     '''',
     '''',
     ''# Imports, Prerequisite Cells''],
    [''<a id="1"></a>'',
     ''# 1. Confirm that the first lightcurve in our hdulist should be truncated after cadence number 293. ''],
    [''<a id="2"></a>'',
     ''# 2. Confirm that using a `remove_outlier` cutoff of `sigma_upper=2` did not affect the other cadences of the lightcurve for the second sector. '',
     '''',
     ''At this point in the tutorial, the second sector\'s original light curve is still saved under the variable name `lc`; plot a graph of its time vs. flux columns and then overplot our sigma-clipped time and flux columns. Hint: You\'ll need to load `time_support()` first in order to use the time column in matplotlib. ''],
    [''<a id="3"></a>'',
     ''# 3. Determine if the rotation period returned by `lightkurve` is different when using only one sector\'s light curve at a time. ''],
    [''<a id="4"></a>'',
     ''# 4. Try recreating the procedure above to find the rotation period for a fainter (higher magnitude) small body from [P'' @ [CHR 0xC3, CHR 0xA1] @ ''l et al. 2020](https://ui.adsabs.harvard.edu/abs/2020ApJS..247...26P/abstract) such as Hippodamia. '',
     ''What issues do you encounter in this case?''],
    [''After scrolling through the cadences, it\'s clear that Hippodamia passes in front of many stars that significantly impact the flux in the aperture. Since Hippodamia is so much dimmer, the influence on the light curve is much more pronounced than for Eleonora. We can try to use a similar outlier removal, but so many of the flux data points are high, it will likely not work. Generally, differential photometry (comparing images before the asteroid appears and after) is required. Because Hippodamia\'s period is relatively short, (P=8.9993 hr), we can try to cutout the few days around cadences 365-460 to see if we can find the rotation period from that.''],
    [''<a id="5"></a>'',
     ''# 5. Use [astroquery\'s Minor Planet Center Queries (MPC)](https://astroquery.readthedocs.io/en/latest/mpc/mpc.html?highlight=mpc#ephemerides) `get_ephemeris` feature to investigate why the median flux for the first sector\'s observations is lower than for the second sector\'s observations. '',
     ''The times of each cadence are in the light curve\'s `time` column.''],
    [''During the second sector, Eleonora was 2.0-2.2% closer than the first, but the median flux was nearly 12% higher and the MPC doesn\'t report any difference in V magnitude.'',
     ''***'',
     ''[Back to top](#Top)'',
     '''',
     ''<img style="float: right;" src="https://raw.githubusercontent.com/spacetelescope/notebooks/master/assets/stsci_pri_combo_mark_horizonal_white_bkgd.png" alt="Space Telescope Logo" width="200px"/> '']]\<close>

definition toc_yml :: "string list" where
  \<open>toc_yml =
   [''# Table of contents'',
    ''# Learn more at https://jupyterbook.org/customize/toc.html'',
    ''format: jb-book'',
    ''root: intro'',
    ''parts:'',
    ''  - caption: Astrocut'',
    ''    chapters:'',
    ''    - file:  notebooks/astrocut/making_tess_cubes_and_cutouts/making_tess_cubes_and_cutouts.ipynb'',
    ''    '',
    ''  - caption: Astroquery'',
    ''    chapters:'',
    ''    - file:  notebooks/astroquery/intro.md'',
    ''    - file:  notebooks/astroquery/nb.md'',
    ''      sections:'',
    ''        - file:  notebooks/astroquery/beginner_search/beginner_search.ipynb'',
    ''        - file:  notebooks/astroquery/beginner_zcut/beginner_zcut.ipynb'',
    ''        - file:  notebooks/astroquery/large_downloads/large_downloads.ipynb'',
    ''        - file:  notebooks/astroquery/historic_quasar_observations/historic_quasar_observations.ipynb'',
    ''        '',
    ''  - caption: GALEX'',
    ''    chapters:'',
    ''    - file:  notebooks/GALEX/mis-mosaic/mis-mosaic.ipynb'',
    '' '',
    ''  - caption: HSC'',
    ''    chapters:'',
    ''    - file:  notebooks/HSC/HCV_API/HCV_API_demo.ipynb'',
    ''    - file:  notebooks/MAST/HSC/HCV_CASJOBS/HCV_casjobs_demo.ipynb'',
    ''    - file:  notebooks/HSC/HSCV3_API/hscv3_api.ipynb'',
    ''    - file:  notebooks/HSC/HSCV3_SMC_API/hscv3_smc_api.ipynb'',
    ''    - file:  notebooks/HSC/HSC_TAP/HSC_TAP.ipynb'',
    ''    - file:  notebooks/HSC/SWEEPS_HSCV3P1/sweeps_hscv3p1.ipynb'',
    ''    - file:  notebooks/MAST/HSC/SWEEPS_HSCV3P1_API/sweeps_hscv3p1_api.ipynb'',
    ''    '',
    ''  - caption: IUE'',
    ''    chapters:'',
    ''    - file: notebooks/IUE/exploring_UV_extinction_curves/exploring_UV_extinction_curves.ipynb'',
    ''    '',
    ''  - caption: JWST'',
    ''    chapters:'',
    ''    - file:  notebooks/JWST/download_by_program_id/download_by_program_id.ipynb'',
    ''    - file:  notebooks/JWST/Engineering_Database_Retreival/EDB_Retrieval.ipynb'',
    ''    - file:  notebooks/JWST/SI_keyword_exoplanet_search/SI_keyword_exoplanet_search.ipynb'',
    ''    '',
    ''  - caption: Kepler'',
    ''    chapters:'',
    ''    - file:  notebooks/Kepler/beginner.md'',
    ''      sections:'',
    ''        - file: notebooks/Kepler/plotting_lightcurves/plotting_lightcurves.ipynb'',
    ''        - file: notebooks/Kepler/plotting_images_from_tpf/plotting_images_from_tpf.ipynb'',
    ''        - file: notebooks/Kepler/plotting_dvts/plotting_dvts.ipynb'',
    ''        - file: notebooks/Kepler/plotting_catalog_over_FFI/plotting_catalog_over_FFI.ipynb'',
    ''    - file:  notebooks/Kepler/lightkurve.md'',
    ''      sections:'',
    ''        - file: notebooks/Kepler/lightkurve_analyzing_lc_products/lightkurve_analyzing_lc_products.ipynb'',
    ''        - file: notebooks/Kepler/lightkurve_analyzing_tpf_products/lightkurve_analyzing_tpf_products.ipynb'',
    ''        - file: notebooks/Kepler/lightkurve_searching_for_data/lightkurve_searching_for_data.ipynb'',
    ''        - file: notebooks/Kepler/lightkurve_custom_aperture_photometry/lightkurve_custom_aperture_photometry.ipynb'',
    ''        - file: notebooks/Kepler/lightkurve_combining_multiple_quarters/lightkurve_combining_multiple_quarters.ipynb'',
    ''        - file: notebooks/Kepler/lightkurve_interactively_inspecting_TPFs_and_LCs/lightkurve_interactively_inspecting_TPFs_and_LCs.ipynb'',
    ''    - file:  notebooks/Kepler/inst_noise.md'',
    ''      sections:'',
    ''        - file:  notebooks/Kepler/instrumental_noise_1_data_gaps_and_quality_flags/instrumental_noise_1_data_gaps_and_quality_flags.ipynb'',
    ''        - file:  notebooks/Kepler/instrumental_noise_2_spurious_signals_and_time_sampling_effects/instrumental_noise_2_spurious_signals_and_time_sampling_effects.ipynb'',
    ''        - file:  notebooks/Kepler/instrumental_noise_3_seasonal_and_detector_effects/instrumental_noise_3_seasonal_and_detector_effects.ipynb'',
    ''        - file:  notebooks/Kepler/instrumental_noise_4_electronic_noise/instrumental_noise_4_electronic_noise.ipynb'',
    ''    - file:  notebooks/Kepler/signals.md'',
    ''      sections:'',
    ''        - file:  notebooks/Kepler/identifying_transiting_planet_signals/identifying_transiting_planet_signals.ipynb'',
    ''        - file:  notebooks/Kepler/measuring_a_rotation_period/measuring_a_rotation_period.ipynb'',
    ''        - file:  notebooks/Kepler/visualizing_periodic_signals_using_a_river_plot/visualizing_periodic_signals_using_a_river_plot.ipynb'',
    ''        - file:  notebooks/Kepler/verifying_the_location_of_a_signal/verifying_the_location_of_a_signal.ipynb'',
    ''    - file:  notebooks/Kepler/periodograms.md'',
    ''      sections:'',
    ''        - file:  notebooks/Kepler/creating_periodograms/creating_periodograms.ipynb'',
    ''        - file:  notebooks/Kepler/how_to_understand_and_manipulate_the_periodogram_of_an_oscillating_star/how_to_understand_and_manipulate_the_periodogram_of_an_oscillating_star.ipynb'',
    ''        - file:  notebooks/Kepler/how_to_estimate_a_stars_mass_and_radius_using_asteroseismology/how_to_estimate_a_stars_mass_and_radius_using_asteroseismology.ipynb'',
    '' '',
    ''  - caption: K2'',
    ''    chapters:'',
    ''    - file:  notebooks/K2/lightcurve/lightcurve.ipynb'',
    ''    - file:  notebooks/K2/TPF/TPF.ipynb'',
    ''    - file:  notebooks/K2/beginner_how_to_use_ffi/beginner_how_to_use_ffi.ipynb'',
    ''    - file:  notebooks/K2/removing_instrumental_noise_using_pld/removing_instrumental_noise_using_pld.ipynb        '',
    '''',
    ''  - caption: MCCM'',
    ''    chapters:'',
    ''    - file:  notebooks/MCCM/FIMS-SPEAR/hyperspectral_healpix_maps/hyperspectral_healpix_maps.ipynb'',
    ''    '',
    ''  - caption: PanSTARRS'',
    ''    chapters:'',
    ''    - file:  notebooks/PanSTARRS/PS1_DR2_TAP/PS1_DR2_TAP.ipynb'',
    ''    - file:  notebooks/PanSTARRS/PS1_image/PS1_image.ipynb'',
    '' '',
    ''  - caption: TESS'',
    ''    chapters:'',
    ''    - file:  notebooks/TESS/beginner.md'',
    ''      sections:'',
    ''        - file:  notebooks/TESS/beginner_astroquery_dv/beginner_astroquery_dv.ipynb'',
    ''        - file:  notebooks/TESS/beginner_how_to_use_dvt/beginner_how_to_use_dvt.ipynb'',
    ''        - file:  notebooks/TESS/beginner_how_to_use_ffi/beginner_how_to_use_ffi.ipynb'',
    ''        - file:  notebooks/TESS/beginner_how_to_use_lc/beginner_how_to_use_lc.ipynb'',
    ''        - file:  notebooks/TESS/beginner_how_to_use_tp/beginner_how_to_use_tp.ipynb'',
    ''        - file:  notebooks/TESS/beginner_tess_exomast/beginner_tess_exomast.ipynb'',
    ''        - file:  notebooks/TESS/beginner_tess_tap_search/beginner_tess_tap_search.ipynb'',
    ''        - file:  notebooks/TESS/beginner_tic_search_hd209458/beginner_tic_search_hd209458.ipynb'',
    ''        - file:  notebooks/TESS/beginner_tour_lc_tp/beginner_tour_lc_tp.ipynb'',
    ''        - file:  notebooks/TESS/beginner_tesscut_astroquery/beginner_tesscut_astroquery.ipynb'',
    ''    - file:  notebooks/TESS/lc.md'',
    ''      sections:'',
    ''        - file:  notebooks/TESS/interm_gi_query/interm_gi_query.ipynb'',
    ''        - file:  notebooks/TESS/interm_tasoc_lc/interm_tasoc_lc.ipynb'',
    ''        - file:  notebooks/TESS/asteroid_rotation/asteroid_rotation.ipynb'',
    ''    - file:  notebooks/TESS/FFIs.md'',
    ''      sections:'',
    ''        - file:  notebooks/TESS/interm_tesscut_dss_overlay/interm_tesscut_dss_overlay.ipynb'',
    ''        - file:  notebooks/TESS/interm_tesscut_requests/interm_tesscut_requests.ipynb'',
    ''    - file:  notebooks/TESS/noise.md'',
    ''      sections:'',
    ''        - file:  notebooks/TESS/interm_tess_prf_retrieve/interm_tess_prf_retrieve.ipynb'',
    ''        - file:  notebooks/TESS/removing_scattered_light_using_regression/removing_scattered_light_using_regression.ipynb'']\<close>

text \<open>The code cells of the four notebooks, their markdown cells, and the files.\<close>

definition notebooks :: "string list list list" where
  "notebooks =
     [interm_tesscut_dss_overlay_code, wildcard_searches_code, notebook_template_code, part_000_code]"

definition markdown :: "string list list list" where
  "markdown =
     [interm_tesscut_dss_overlay_markdown, wildcard_searches_markdown, notebook_template_markdown,
      part_000_markdown]"

definition repository_files :: "string list" where
  "repository_files =
     [''_toc.yml'',
      ''contributing/notebook_template/notebook_template.ipynb'',
      ''notebooks/TESS/interm_tesscut_dss_overlay/interm_tesscut_dss_overlay.ipynb'',
      ''notebooks/astroquery/wildcard_searches/wildcard_searches.ipynb'',
      ''unnamed/part_000'']"

section \<open>Reading source lines\<close>

text \<open>
  Python's \<open>sub in l\<close>, \<open>l.lstrip(' ')\<close>, \<open>l.rstrip(' ')\<close> and \<open>l.endswith(suffix)\<close>; the
  indentation of a line; the lines that satisfy a test, how many there are, and whether
  all do.
\<close>

fun contains :: "string \<Rightarrow> string \<Rightarrow> bool" where
  "contains [] sub = (sub = [])"
| "contains (x # xs) sub = (startswith (x # xs) sub \<or> contains xs sub)"

definition mentions :: "string list \<Rightarrow> string \<Rightarrow> bool" where
  "mentions words l = list_ex (contains l) words"

definition lstrip :: "string \<Rightarrow> string" where
  "lstrip l = dropWhile (\<lambda>x. x = CHR '' '') l"

definition rstrip :: "string \<Rightarrow> string" where
  "rstrip l = rev (lstrip (rev l))"

definition endswith :: "string \<Rightarrow> string \<Rightarrow> bool" where
  "endswith l suffix = startswith (rev l) (rev suffix)"

definition indent :: "string \<Rightarrow> nat" where
  "indent l = length (takeWhile (\<lambda>x. x = CHR '' '') l)"

definition blank :: "string \<Rightarrow> bool" where
  "blank l \<longleftrightarrow> lstrip l = []"

definition select :: "('a \<Rightarrow> bool) \<Rightarrow> 'a list \<Rightarrow> 'a list" where
  "select P xs = filter P xs"

definition count_lines :: "(string \<Rightarrow> bool) \<Rightarrow> string list \<Rightarrow> nat" where
  "count_lines P ls = length (filter P ls)"

definition every :: "('a \<Rightarrow> bool) \<Rightarrow> 'a list \<Rightarrow> bool" where
  "every P xs = list_all P xs"

text \<open>
  The same tests computed in one pass from the left, for evaluation: \<open>scan\<close> keeps the
  remainders of the words that match up to the current character, \<open>filter_rev\<close> and
  \<open>count_from\<close> carry their result along. They are proved equal to the definitions
  above before they are used.
\<close>

fun advance :: "char \<Rightarrow> string list \<Rightarrow> string list" where
  "advance x [] = []"
| "advance x ([] # sts) = advance x sts"
| "advance x ((p # ps) # sts) = (if p = x then ps # advance x sts else advance x sts)"

fun scan :: "string list \<Rightarrow> string list \<Rightarrow> string \<Rightarrow> bool" where
  "scan pats sts [] = ([] \<in> set (pats @ sts))"
| "scan pats sts (x # xs) =
     scan pats (if [] \<in> set (pats @ sts) then [[]] else advance x (pats @ sts)) xs"

fun filter_rev :: "('a \<Rightarrow> bool) \<Rightarrow> 'a list \<Rightarrow> 'a list \<Rightarrow> 'a list" where
  "filter_rev P acc [] = acc"
| "filter_rev P acc (x # xs) = filter_rev P (if P x then x # acc else acc) xs"

fun count_from :: "('a \<Rightarrow> bool) \<Rightarrow> nat \<Rightarrow> 'a list \<Rightarrow> nat" where
  "count_from P n [] = n"
| "count_from P n (x # xs) = count_from P (if P x then Suc n else n) xs"

subsection \<open>Kinds of code line\<close>

text \<open>
  A line of a code cell is an import statement, a comment, an IPython magic, the header
  of a function or class definition, a loop header, a branch header
  (\<open>if\<close>, \<open>elif\<close>, \<open>else\<close>, \<open>try\<close>, \<open>except\<close>), or a \<open>global\<close> or \<open>nonlocal\<close>
  declaration, by the word it starts with. A code line proper is neither blank nor a
  comment.
\<close>

definition is_import :: "string \<Rightarrow> bool" where
  "is_import l \<longleftrightarrow> startswith (lstrip l) ''import '' \<or> startswith (lstrip l) ''from ''"

definition is_comment :: "string \<Rightarrow> bool" where
  "is_comment l \<longleftrightarrow> startswith (lstrip l) ''#''"

definition is_magic :: "string \<Rightarrow> bool" where
  "is_magic l \<longleftrightarrow> startswith l ''%''"

definition is_code :: "string \<Rightarrow> bool" where
  "is_code l \<longleftrightarrow> \<not> blank l \<and> \<not> is_comment l"

definition is_def :: "string \<Rightarrow> bool" where
  "is_def l \<longleftrightarrow> startswith (lstrip l) ''def ''"

definition is_class :: "string \<Rightarrow> bool" where
  "is_class l \<longleftrightarrow> startswith (lstrip l) ''class ''"

definition is_loop :: "string \<Rightarrow> bool" where
  "is_loop l \<longleftrightarrow> startswith (lstrip l) ''for '' \<or> startswith (lstrip l) ''while ''"

definition is_branch :: "string \<Rightarrow> bool" where
  "is_branch l \<longleftrightarrow>
     list_ex (startswith (lstrip l)) [''if '', ''elif '', ''else:'', ''try:'', ''except'']"

definition keeps_state :: "string \<Rightarrow> bool" where
  "keeps_state l \<longleftrightarrow> startswith (lstrip l) ''global '' \<or> startswith (lstrip l) ''nonlocal ''"

subsection \<open>Import cells, try blocks and function definitions\<close>

text \<open>
  A notebook begins with its imports when its first code cell holds nothing but imports,
  magics, comments and blank lines, and no later code cell imports anything.
\<close>

definition imports_cell :: "string list \<Rightarrow> bool" where
  "imports_cell cell = every (\<lambda>l. blank l \<or> is_comment l \<or> is_magic l \<or> is_import l) cell"

definition late_imports :: "string list list \<Rightarrow> string list" where
  "late_imports cells = select is_import (concat (tl cells))"

definition begins_with_its_imports :: "string list list \<Rightarrow> bool" where
  "begins_with_its_imports cells \<longleftrightarrow>
     (case cells of [] \<Rightarrow> False | first # rest \<Rightarrow> imports_cell first) \<and> late_imports cells = []"

text \<open>
  The body of each \<open>try:\<close> of a cell: the lines that follow it, as long as they are
  indented deeper. A body wraps one call to an archive API when it is a single line
  that calls into one of the archive clients the notebooks import, or into \<open>requests\<close>.
\<close>

fun try_bodies :: "string list \<Rightarrow> string list list" where
  "try_bodies [] = []"
| "try_bodies (l # ls) =
     (if lstrip l = ''try:''
      then takeWhile (\<lambda>m. indent l < indent m) ls # try_bodies ls
      else try_bodies ls)"

definition archive_apis :: "string list" where
  "archive_apis = [''Tesscut.'', ''Catalogs.'', ''Observations.'', ''Mast.'', ''MPC.'', ''requests.'']"

definition archive_call :: "string \<Rightarrow> bool" where
  "archive_call l \<longleftrightarrow> contains l ''('' \<and> mentions archive_apis l"

definition wraps_one_api_call :: "string list \<Rightarrow> bool" where
  "wraps_one_api_call body = (case body of [l] \<Rightarrow> archive_call l | _ \<Rightarrow> False)"

text \<open>
  The functions a cell defines: the name after \<open>def\<close>, and as body the lines that
  follow the header as long as they are blank or indented deeper (the continuation of a
  header that runs over two lines counts to the body). A function is straight-line when
  its body has no branch, no loop, no call of itself and no \<open>global\<close> or \<open>nonlocal\<close>.
\<close>

definition def_name :: "string \<Rightarrow> string" where
  "def_name l = takeWhile (\<lambda>x. x \<noteq> CHR ''('') (drop 4 (lstrip l))"

fun function_defs :: "string list \<Rightarrow> (string \<times> string list) list" where
  "function_defs [] = []"
| "function_defs (l # ls) =
     (if is_def l
      then (def_name l, takeWhile (\<lambda>m. blank m \<or> indent l < indent m) ls) # function_defs ls
      else function_defs ls)"

definition calls_itself :: "string \<times> string list \<Rightarrow> bool" where
  "calls_itself fn = (case fn of (name, body) \<Rightarrow> list_ex (\<lambda>l. contains l (name @ ''('')) body)"

definition straight_line :: "string \<times> string list \<Rightarrow> bool" where
  "straight_line fn \<longleftrightarrow>
     every (\<lambda>l. \<not> is_branch l \<and> \<not> is_loop l \<and> \<not> keeps_state l) (snd fn) \<and> \<not> calls_itself fn"

subsection \<open>The table of contents\<close>

text \<open>
  A line of \<open>_toc.yml\<close>, read without its surrounding blanks, is one of the keys of a
  Jupyter Book table of contents or something else. A book has its format and root,
  then \<open>parts:\<close>, then parts that each open with a caption and \<open>chapters:\<close> and hold
  \<open>file:\<close> entries, some under \<open>sections:\<close>.
\<close>

datatype toc_line =
    Blank | Comment | Format string | Root string | Parts
  | Caption string | Chapters | Sections | File string | Other

definition toc_line :: "string \<Rightarrow> toc_line" where
  "toc_line l =
     (let s = lstrip (rstrip l)
      in if s = [] then Blank
         else if startswith s ''#'' then Comment
         else if startswith s ''format: '' then Format (drop 8 s)
         else if startswith s ''root: '' then Root (drop 6 s)
         else if s = ''parts:'' then Parts
         else if startswith s ''- caption: '' then Caption (drop 11 s)
         else if s = ''chapters:'' then Chapters
         else if s = ''sections:'' then Sections
         else if startswith s ''- file:'' then File (lstrip (drop 7 s))
         else Other)"

definition toc_entries :: "string list \<Rightarrow> toc_line list" where
  "toc_entries ls = select (\<lambda>t. t \<noteq> Blank \<and> t \<noteq> Comment) (map toc_line ls)"

definition is_file :: "toc_line \<Rightarrow> bool" where
  "is_file t = (case t of File p \<Rightarrow> True | _ \<Rightarrow> False)"

definition is_caption :: "toc_line \<Rightarrow> bool" where
  "is_caption t = (case t of Caption c \<Rightarrow> True | _ \<Rightarrow> False)"

text \<open>
  What may stand directly after what inside \<open>parts:\<close>: \<open>chapters:\<close> after a caption,
  a file after \<open>chapters:\<close> or \<open>sections:\<close>, and after a file another file,
  \<open>sections:\<close> or the caption of the next part. The last entry is a file.
\<close>

definition may_follow :: "toc_line \<Rightarrow> toc_line \<Rightarrow> bool" where
  "may_follow prev t =
     (case prev of
        Caption c \<Rightarrow> t = Chapters
      | Chapters \<Rightarrow> is_file t
      | Sections \<Rightarrow> is_file t
      | File p \<Rightarrow> is_file t \<or> t = Sections \<or> is_caption t
      | _ \<Rightarrow> False)"

primrec captioned_parts :: "toc_line \<Rightarrow> toc_line list \<Rightarrow> bool" where
  "captioned_parts prev [] = is_file prev"
| "captioned_parts prev (t # ts) = (may_follow prev t \<and> captioned_parts t ts)"

definition jb_book :: "toc_line list \<Rightarrow> bool" where
  "jb_book ts \<longleftrightarrow>
     take 3 ts = [Format ''jb-book'', Root ''intro'', Parts]
     \<and> (case drop 3 ts of [] \<Rightarrow> False | t # rest \<Rightarrow> is_caption t \<and> captioned_parts t rest)"

definition page_reference :: "toc_line \<Rightarrow> bool" where
  "page_reference t = (case t of File p \<Rightarrow> endswith p ''.ipynb'' \<or> endswith p ''.md'' | _ \<Rightarrow> False)"

definition structural :: "toc_line \<Rightarrow> bool" where
  "structural t = (case t of File p \<Rightarrow> False | Other \<Rightarrow> False | _ \<Rightarrow> True)"

definition captions :: "toc_line list \<Rightarrow> string list" where
  "captions ts = concat (map (\<lambda>t. case t of Caption c \<Rightarrow> [c] | _ \<Rightarrow> []) ts)"

section \<open>Properties of getdss\<close>

lemma plate_valid_iff:
  "(map_of plateDict plate = None) = (plate \<notin> set [''red'', ''blue'', ''ukred'', ''ukblue''])"
  by (simp add: plateDict_def)

lemma open_wb_ok:
  "CHR 0x00 \<notin> set path \<Longrightarrow> open_error L path = None \<Longrightarrow>
     open_wb L path wld = Inr (wld\<lparr>files := (files wld)(path \<mapsto> [])\<rparr>)"
  by (simp add: open_wb_def)

lemma write_close_ok:
  "write_error L path content = None \<Longrightarrow>
     write_close L path content wld = (None, wld\<lparr>files := (files wld)(path \<mapsto> content)\<rparr>)"
  by (simp add: write_close_def)

text \<open>
  The notebook's call at its own coordinates, against an archive that answers with a
  FITS header, with a page of HTML, and with a plate that does not exist.
\<close>

lemma empty_world_sel: "files empty_world = Map.empty" "trace empty_world = []"
  by (simp_all add: empty_world_def)

lemma sample_run:
  "getdss (sample_libs ''SIMPLE  =                    T'') tess_ra tess_dec ''red''
        None None None (Some ''/data'') empty_world
   = (Inr ''/data/dss_red_66.582618_-67.806508.fits'',
      \<lparr>files = [''/data/dss_red_66.582618_-67.806508.fits'' \<mapsto> ''SIMPLE  =                    T''],
       trace = [Requests_get ''https://archive.stsci.edu/cgi-bin/dss_search''
                 [(''r'', Num tess_ra), (''d'', Num tess_dec), (''v'', Str ''2r''),
                  (''e'', Str ''J2000''), (''h'', Num 7), (''w'', Num 7), (''f'', Str ''fits''),
                  (''c'', Str ''none''), (''s'', Str ''yes'')]]\<rparr>)"
  by (simp add: getdss_def sample_libs_def default_size_def plateDict_def dss_filename_def
      dss_params_def url_def empty_world_def sample_format_6f_def posix_join_def Let_def
      tess_ra_def tess_dec_def open_wb_def write_close_def)

lemma sample_run_html:
  "getdss (sample_libs ''<html>no image</html>'') tess_ra tess_dec ''red''
        None None None (Some ''/data'') empty_world
   = (Inl (ValueError ''No FITS file returned for /data/dss_red_66.582618_-67.806508.fits''),
      \<lparr>files = Map.empty,
       trace = [Requests_get ''https://archive.stsci.edu/cgi-bin/dss_search''
                 [(''r'', Num tess_ra), (''d'', Num tess_dec), (''v'', Str ''2r''),
                  (''e'', Str ''J2000''), (''h'', Num 7), (''w'', Num 7), (''f'', Str ''fits''),
                  (''c'', Str ''none''), (''s'', Str ''yes'')]]\<rparr>)"
  by (simp add: getdss_def sample_libs_def default_size_def plateDict_def dss_filename_def
      dss_params_def url_def empty_world_def sample_format_6f_def posix_join_def Let_def
      tess_ra_def tess_dec_def)

lemma sample_run_green:
  "getdss (sample_libs ''SIMPLE  =                    T'') tess_ra tess_dec ''green''
        None None None (Some ''/data'') empty_world
   = (Inl (ValueError (''Illegal plate value '' @ [CHR 0x27] @ ''green'' @ [CHR 0x27, CHR 0x0A]
            @ ''Should be one of red, blue, ukred, ukblue'')), empty_world)"
  by (simp add: getdss_def sample_libs_def default_size_def plateDict_def Let_def)

text \<open>
  C5, as stated, fails on the code: the claim assumes only that the GET succeeds, but
  the file is still to be opened. With a legal plate and a FITS body, a file name with a
  NUL byte makes \<open>open\<close> raise \<open>ValueError\<close>, which the claim's "if and only if"
  excludes; and where the operating system refuses the file (a directory that does not
  exist), the call raises \<open>OSError\<close>: it neither raises \<open>ValueError\<close> nor writes the
  body and returns the name, and no file is left.
\<close>

theorem getdss_open_fails_counterexample:
  "requests_get (sample_libs ''SIMPLE  =                    T'') url
      (dss_params tess_ra tess_dec ''2r'' 7 7) = Inr ''SIMPLE  =                    T''
   \<and> ''red'' \<in> set [''red'', ''blue'', ''ukred'', ''ukblue'']
   \<and> startswith ''SIMPLE  =                    T'' ''SIMPLE  =''
   \<and> getdss (sample_libs ''SIMPLE  =                    T'') tess_ra tess_dec ''red''
        None None (Some [CHR ''d'', CHR ''s'', CHR ''s'', CHR 0x00]) None empty_world
      = (Inl (ValueError ''embedded null byte''),
         \<lparr>files = Map.empty, trace = [Requests_get url (dss_params tess_ra tess_dec ''2r'' 7 7)]\<rparr>)
   \<and> getdss ((sample_libs ''SIMPLE  =                    T'')
          \<lparr>open_error := (\<lambda>path. Some (OSError ''No such file or directory''))\<rparr>)
        tess_ra tess_dec ''red'' None None None (Some ''/nonexistent_dir'') empty_world
      = (Inl (OSError ''No such file or directory''),
         \<lparr>files = Map.empty, trace = [Requests_get url (dss_params tess_ra tess_dec ''2r'' 7 7)]\<rparr>)"
  by (simp add: getdss_def sample_libs_def default_size_def plateDict_def dss_filename_def
      empty_world_def sample_format_6f_def posix_join_def Let_def tess_ra_def tess_dec_def
      open_wb_def)

text \<open>
  C5, as amended. Assume that the GET succeeds with body \<open>content\<close> and that the computed
  file can be opened and written (its name has no NUL byte and the operating system
  raises nothing). Then \<open>getdss\<close> raises \<open>ValueError\<close> exactly when the plate is not one of
  red, blue, ukred, ukblue or the body does not start with \<open>SIMPLE  =\<close>. On every error
  the files are those from before the call: nothing was opened for writing. And with a
  legal plate and a body that starts with \<open>SIMPLE  =\<close> the call returns the computed file
  name, and that file holds the body.
\<close>

theorem getdss_ValueError_iff_when_writable:
  assumes size: "default_size height width = (hh, ww)"
      and get_ok: "\<And>vplate. map_of plateDict plate = Some vplate \<Longrightarrow>
             requests_get L url (dss_params ra dec vplate hh ww) = Inr content"
      and no_nul: "CHR 0x00 \<notin> set (dss_filename L ra dec plate filename directory)"
      and open_ok: "open_error L (dss_filename L ra dec plate filename directory) = None"
      and write_ok: "write_error L (dss_filename L ra dec plate filename directory) content = None"
      and run: "getdss L ra dec plate height width filename directory wld = (res, wld')"
  shows "(is_ValueError res \<longleftrightarrow>
            plate \<notin> set [''red'', ''blue'', ''ukred'', ''ukblue''] \<or> \<not> startswith content ''SIMPLE  ='')
       \<and> (isl res \<longrightarrow> files wld' = files wld)
       \<and> (plate \<in> set [''red'', ''blue'', ''ukred'', ''ukblue''] \<and> startswith content ''SIMPLE  ='' \<longrightarrow>
            res = Inr (dss_filename L ra dec plate filename directory)
          \<and> files wld' = (files wld)(dss_filename L ra dec plate filename directory \<mapsto> content))"
proof (cases "map_of plateDict plate")
  case None
  then have "plate \<notin> set [''red'', ''blue'', ''ukred'', ''ukblue'']"
    using plate_valid_iff [of plate] by blast
  moreover from None run have "is_ValueError res" "isl res" "wld' = wld"
    by (auto simp: getdss_def split: prod.splits)
  ultimately show ?thesis by simp
next
  case (Some vplate)
  let ?name = "dss_filename L ra dec plate filename directory"
  let ?wld1 = "wld\<lparr>trace := trace wld @ [Requests_get url (dss_params ra dec vplate hh ww)]\<rparr>"
  from Some have valid: "plate \<in> set [''red'', ''blue'', ''ukred'', ''ukblue'']"
    using plate_valid_iff [of plate] by simp
  show ?thesis
  proof (cases "startswith content ''SIMPLE  =''")
    case False
    with Some size get_ok [OF Some] run
    have "res = Inl (ValueError (''No FITS file returned for '' @ ?name))" "wld' = ?wld1"
      by (simp_all add: getdss_def Let_def)
    with False valid show ?thesis by simp
  next
    case True
    have opened: "open_wb L ?name ?wld1 = Inr (?wld1\<lparr>files := (files ?wld1)(?name \<mapsto> [])\<rparr>)"
      using no_nul open_ok by (rule open_wb_ok)
    have written: "write_close L ?name content (?wld1\<lparr>files := (files ?wld1)(?name \<mapsto> [])\<rparr>)
        = (None, ?wld1\<lparr>files := (files wld)(?name \<mapsto> content)\<rparr>)"
      using write_ok by (simp add: write_close_def)
    from Some size get_ok [OF Some] True run opened written
    have "(Inr ?name, ?wld1\<lparr>files := (files wld)(?name \<mapsto> content)\<rparr>) = (res, wld')"
      by (simp add: getdss_def Let_def)
    then have "res = Inr ?name" "files wld' = (files wld)(?name \<mapsto> content)"
      by auto
    with True valid show ?thesis by simp
  qed
qed

text \<open>The theorem at the notebook's call: the hypotheses hold and the file is written.\<close>

theorem getdss_ValueError_iff_when_writable_witness:
  "default_size None None = (7, 7)
   \<and> requests_get (sample_libs ''SIMPLE  =                    T'') url
         (dss_params tess_ra tess_dec ''2r'' 7 7) = Inr ''SIMPLE  =                    T''
   \<and> CHR 0x00 \<notin> set (dss_filename (sample_libs ''SIMPLE  =                    T'') tess_ra
           tess_dec ''red'' None (Some ''/data''))
   \<and> open_error (sample_libs ''SIMPLE  =                    T'')
         (dss_filename (sample_libs ''SIMPLE  =                    T'') tess_ra tess_dec ''red'' None
            (Some ''/data'')) = None
   \<and> \<not> is_ValueError (fst (getdss (sample_libs ''SIMPLE  =                    T'') tess_ra tess_dec
         ''red'' None None None (Some ''/data'') empty_world))
   \<and> fst (getdss (sample_libs ''SIMPLE  =                    T'') tess_ra tess_dec
         ''red'' None None None (Some ''/data'') empty_world)
       = Inr ''/data/dss_red_66.582618_-67.806508.fits''
   \<and> files (snd (getdss (sample_libs ''SIMPLE  =                    T'') tess_ra tess_dec
         ''red'' None None None (Some ''/data'') empty_world))
       = (files empty_world)(''/data/dss_red_66.582618_-67.806508.fits'' \<mapsto> ''SIMPLE  =                    T'')"
proof -
  let ?L = "sample_libs ''SIMPLE  =                    T''"
  have size: "default_size None None = (7, 7)"
    by (simp add: default_size_def)
  have get_ok: "\<And>vplate. map_of plateDict ''red'' = Some vplate \<Longrightarrow>
      requests_get ?L url (dss_params tess_ra tess_dec vplate 7 7) = Inr ''SIMPLE  =                    T''"
    by (simp add: sample_libs_def)
  have name: "dss_filename ?L tess_ra tess_dec ''red'' None (Some ''/data'')
      = ''/data/dss_red_66.582618_-67.806508.fits''"
    by (simp add: dss_filename_def sample_libs_def sample_format_6f_def posix_join_def
        tess_ra_def tess_dec_def)
  have no_nul: "CHR 0x00 \<notin> set (dss_filename ?L tess_ra tess_dec ''red'' None (Some ''/data''))"
    by (simp add: name)
  have open_ok: "open_error ?L (dss_filename ?L tess_ra tess_dec ''red'' None (Some ''/data'')) = None"
    by (simp add: sample_libs_def)
  have write_ok: "write_error ?L (dss_filename ?L tess_ra tess_dec ''red'' None (Some ''/data''))
      ''SIMPLE  =                    T'' = None"
    by (simp add: sample_libs_def)
  have sig: "startswith ''SIMPLE  =                    T'' ''SIMPLE  =''"
    by simp
  from getdss_ValueError_iff_when_writable [OF size get_ok no_nul open_ok write_ok sample_run]
    size get_ok no_nul open_ok sig
  show ?thesis
    by (simp add: sample_run name empty_world_sel plateDict_def)
qed

lemma default_size_cases:
  "default_size None None = (7, 7)"
  "default_size (Some x) None = (x, x)"
  "default_size None (Some x) = (x, x)"
  "default_size (Some x) (Some y) = (x, y)"
  by (simp_all add: default_size_def)

lemma trace_open_wb: "open_wb L path wld = Inr wld2 \<Longrightarrow> trace wld2 = trace wld"
  by (auto simp: open_wb_def split: if_splits option.splits)

lemma trace_write_close: "trace (snd (write_close L path content wld)) = trace wld"
  by (simp add: write_close_def split: option.splits prod.splits)

lemma getdss_trace:
  "trace (snd (getdss L ra dec plate height width filename directory wld)) =
     (case map_of plateDict plate of
        None \<Rightarrow> trace wld
      | Some vplate \<Rightarrow> trace wld @ [Requests_get url
          (dss_params ra dec vplate (fst (default_size height width)) (snd (default_size height width)))])"
proof (cases "map_of plateDict plate")
  case None
  then show ?thesis
    by (simp add: getdss_def split: prod.splits)
next
  case (Some vplate)
  obtain hh ww where size: "default_size height width = (hh, ww)"
    by (cases "default_size height width")
  let ?p = "dss_params ra dec vplate hh ww"
  let ?wld1 = "wld\<lparr>trace := trace wld @ [Requests_get url ?p]\<rparr>"
  let ?name = "dss_filename L ra dec plate filename directory"
  have opened: "trace (snd (case open_wb L ?name ?wld1 of
          Inl err \<Rightarrow> (Inl err, ?wld1)
        | Inr wld2 \<Rightarrow>
            (case write_close L ?name content wld2 of
               (Some err, wld3) \<Rightarrow> (Inl err, wld3)
             | (None, wld3) \<Rightarrow> (Inr ?name, wld3)))) = trace ?wld1" for content
  proof (cases "open_wb L ?name ?wld1")
    case (Inl err)
    then show ?thesis by simp
  next
    case (Inr wld2)
    then have "trace wld2 = trace ?wld1"
      by (rule trace_open_wb)
    moreover obtain err wld3 where wc: "write_close L ?name content wld2 = (err, wld3)"
      by (cases "write_close L ?name content wld2")
    moreover have "trace wld3 = trace wld2"
      using trace_write_close [of L ?name content wld2] wc by simp
    ultimately show ?thesis
      using Inr by (cases err) simp_all
  qed
  from Some size show ?thesis
    by (simp add: getdss_def Let_def opened split: sum.splits)
qed

lemma get_requests_append: "get_requests (xs @ ys) = get_requests xs @ get_requests ys"
  by (induction xs rule: get_requests.induct) simp_all

text \<open>
  C6. With neither height nor width given both are 7.0; with exactly one given the other
  is set to it. So whenever at most one of them is given, every request the call sends
  carries equal \<open>h\<close> and \<open>w\<close> (and a valid plate sends exactly one request).
\<close>

theorem getdss_square_unless_both_given:
  assumes one: "height = None \<or> width = None"
      and run: "getdss L ra dec plate height width filename directory wld = (res, wld')"
  shows "(height = None \<and> width = None \<longrightarrow> default_size height width = (7, 7))
       \<and> (\<forall>x. height = Some x \<longrightarrow> default_size height width = (x, x))
       \<and> (\<forall>x. width = Some x \<longrightarrow> default_size height width = (x, x))
       \<and> (\<exists>new. get_requests (trace wld') = get_requests (trace wld) @ new
              \<and> list_all (\<lambda>(u, p). map_of p ''h'' = map_of p ''w''
                     \<and> map_of p ''h'' = Some (Num (fst (default_size height width)))) new
              \<and> (plate \<in> set [''red'', ''blue'', ''ukred'', ''ukblue''] \<longrightarrow> length new = 1))"
proof -
  from one have sq: "fst (default_size height width) = snd (default_size height width)"
    by (auto simp: default_size_def split: option.splits)
  have tr: "trace wld' = trace (snd (getdss L ra dec plate height width filename directory wld))"
    using run by simp
  show ?thesis
  proof (cases "map_of plateDict plate")
    case None
    then have "plate \<notin> set [''red'', ''blue'', ''ukred'', ''ukblue'']"
      using plate_valid_iff [of plate] by blast
    moreover from None have "get_requests (trace wld') = get_requests (trace wld) @ []"
      by (simp add: tr getdss_trace)
    ultimately show ?thesis using one
      by (auto simp: default_size_def)
  next
    case (Some vplate)
    let ?p = "dss_params ra dec vplate (fst (default_size height width)) (snd (default_size height width))"
    from Some have "get_requests (trace wld') = get_requests (trace wld) @ [(url, ?p)]"
      by (simp add: tr getdss_trace get_requests_append)
    moreover have "map_of ?p ''h'' = map_of ?p ''w''"
      "map_of ?p ''h'' = Some (Num (fst (default_size height width)))"
      using sq by (simp_all add: dss_params_def)
    ultimately show ?thesis using one
      by (auto simp: default_size_def)
  qed
qed

text \<open>The theorem at a call that gives only the width.\<close>

theorem getdss_square_unless_both_given_witness:
  "get_requests (trace (snd (getdss (sample_libs ''SIMPLE  =                    T'') tess_ra tess_dec
       ''red'' None (Some 3) None (Some ''/data'') empty_world)))
   = [(url, dss_params tess_ra tess_dec ''2r'' 3 3)]
   \<and> default_size None (Some 3) = (3, 3)"
proof -
  obtain res wld' where run: "getdss (sample_libs ''SIMPLE  =                    T'') tess_ra tess_dec
       ''red'' None (Some 3) None (Some ''/data'') empty_world = (res, wld')"
    by (cases "getdss (sample_libs ''SIMPLE  =                    T'') tess_ra tess_dec
       ''red'' None (Some 3) None (Some ''/data'') empty_world")
  have one: "(None :: real option) = None \<or> Some (3::real) = None"
    by simp
  from getdss_square_unless_both_given [OF one run]
  have "default_size None (Some 3) = (3, 3)"
    by simp
  then show ?thesis
    by (simp add: getdss_trace plateDict_def empty_world_sel default_size_def)
qed

section \<open>Properties of the ephemeris table\<close>

lemma sorts_by_sorted: "sorts_by key table_sort \<Longrightarrow> sorted (map key (table_sort rows))"
  unfolding sorts_by_def by blast

lemma sorts_by_mset: "sorts_by key table_sort \<Longrightarrow> mset (table_sort rows) = mset rows"
  unfolding sorts_by_def by blast

lemma stable_sort_by_sorted:
  "stable_sort_by key table_sort \<Longrightarrow> sorted (map key (table_sort rows))"
  unfolding stable_sort_by_def by blast

lemma stable_sort_by_class:
  "stable_sort_by key table_sort \<Longrightarrow>
     filter (\<lambda>row. key row = k) (table_sort rows) = filter (\<lambda>row. key row = k) rows"
  unfolding stable_sort_by_def by blast

lemma filter_implied:
  assumes "\<And>y. P y \<Longrightarrow> Q y"
  shows "filter P (filter Q ys) = filter P ys"
  using assms by (induction ys) auto

lemma stable_sort_by_mset:
  assumes "stable_sort_by key table_sort"
  shows "mset (table_sort rows) = mset rows"
proof (rule multiset_eqI)
  fix x
  have cls: "filter (\<lambda>row. key row = key x) (table_sort rows) = filter (\<lambda>row. key row = key x) rows"
    by (rule stable_sort_by_class [OF assms])
  have sub: "filter (\<lambda>y. x = y) (filter (\<lambda>row. key row = key x) ys) = filter (\<lambda>y. x = y) ys" for ys
    by (rule filter_implied) simp
  have "filter (\<lambda>y. x = y) (table_sort rows)
      = filter (\<lambda>y. x = y) (filter (\<lambda>row. key row = key x) (table_sort rows))"
    by (simp only: sub)
  also have "\<dots> = filter (\<lambda>y. x = y) (filter (\<lambda>row. key row = key x) rows)"
    by (simp only: cls)
  also have "\<dots> = filter (\<lambda>y. x = y) rows"
    by (simp only: sub)
  finally have "filter (\<lambda>y. x = y) (table_sort rows) = filter (\<lambda>y. x = y) rows" .
  then show "count (mset (table_sort rows)) x = count (mset rows) x"
    by (simp add: count_mset count_list_eq_length_filter)
qed

lemma stable_sort_by_sort_key:
  assumes "stable_sort_by key table_sort"
  shows "table_sort rows = sort_key key rows"
proof -
  have "sort_key key rows = table_sort rows"
  proof (rule properties_for_sort_key)
    show "mset (table_sort rows) = mset rows"
      by (rule stable_sort_by_mset [OF assms])
    show "sorted (map key (table_sort rows))"
      by (rule stable_sort_by_sorted [OF assms])
    fix k
    have "filter (\<lambda>row. key row = key k) (table_sort rows) = filter (\<lambda>row. key row = key k) rows"
      by (rule stable_sort_by_class [OF assms])
    then show "filter (\<lambda>x. key k = key x) (table_sort rows) = filter (\<lambda>x. key k = key x) rows"
      by (simp add: eq_commute)
  qed
  then show ?thesis by simp
qed

lemma sort_key_sorts: "sorts_by key (sort_key key)"
  by (simp add: sorts_by_def)

lemma sort_key_stable_sort: "stable_sort_by key (sort_key key)"
  by (simp add: stable_sort_by_def sort_key_stable)

lemma reversing_sort_sorts: "sorts_by key (reversing_sort key)"
  by (simp add: sorts_by_def reversing_sort_def)

lemma sorted_column_unchanged:
  assumes srt: "sorts_by key table_sort" and sorted: "sorted (map key rows)"
  shows "map key (table_sort rows) = map key rows"
proof -
  have "mset (map key (table_sort rows)) = mset (map key rows)"
    using sorts_by_mset [OF srt, of rows] by simp
  moreover have "sorted (map key (table_sort rows))"
    by (rule sorts_by_sorted [OF srt])
  ultimately have "sort (map key rows) = map key (table_sort rows)"
    by (rule properties_for_sort)
  moreover have "sort (map key rows) = map key rows"
    using sorted by (simp add: sort_key_id_if_sorted)
  ultimately show ?thesis by simp
qed

lemma distinct_keys_unchanged:
  assumes srt: "sorts_by key table_sort" and sorted: "sorted (map key rows)"
      and dist: "distinct (map key rows)"
  shows "table_sort rows = rows"
proof -
  have col: "map key (table_sort rows) = map key rows"
    using srt sorted by (rule sorted_column_unchanged)
  have "set (table_sort rows) = set rows"
    using sorts_by_mset [OF srt, of rows] by (rule mset_eq_setD)
  moreover have "inj_on key (set rows)"
    using dist by (simp add: distinct_map)
  ultimately have "inj_on key (set (table_sort rows) \<union> set rows)"
    by simp
  then show ?thesis
    using col by (simp add: inj_on_map_eq_map)
qed

lemma ephemeris_t_min: "map eph_t_min (ephemeris rows) = map t_min rows"
  by (simp add: ephemeris_def)

text \<open>
  C7, as amended. Whatever sort \<open>Table.sort\<close> is, after \<open>filtered_observations\<close> has been
  sorted by \<open>t_min\<close> the ephemeris built from its columns has a non-decreasing \<open>t_min\<close>
  column, and the second sort returns the same rows with the same \<open>t_min\<close> column. It
  returns the table itself, unchanged, when no two rows share a \<open>t_min\<close> or when the sort
  is stable.
\<close>

theorem second_sort_keeps_t_min_column:
  assumes obs_sort: "sorts_by t_min sort_observations"
      and eph_sort: "sorts_by eph_t_min sort_ephemeris"
      and table: "eph = ephemeris (sort_observations (filtered_observations observations))"
  shows "sorted (map eph_t_min eph)
       \<and> map eph_t_min (sort_ephemeris eph) = map eph_t_min eph
       \<and> mset (sort_ephemeris eph) = mset eph
       \<and> (distinct (map eph_t_min eph) \<or> stable_sort_by eph_t_min sort_ephemeris
            \<longrightarrow> sort_ephemeris eph = eph)"
proof -
  have "sorted (map t_min (sort_observations (filtered_observations observations)))"
    by (rule sorts_by_sorted [OF obs_sort])
  then have sorted_eph: "sorted (map eph_t_min eph)"
    by (simp only: table ephemeris_t_min)
  have col: "map eph_t_min (sort_ephemeris eph) = map eph_t_min eph"
    using eph_sort sorted_eph by (rule sorted_column_unchanged)
  have perm: "mset (sort_ephemeris eph) = mset eph"
    by (rule sorts_by_mset [OF eph_sort])
  have "sort_ephemeris eph = eph" if "distinct (map eph_t_min eph)"
    using eph_sort sorted_eph that by (rule distinct_keys_unchanged)
  moreover have "sort_ephemeris eph = eph" if st: "stable_sort_by eph_t_min sort_ephemeris"
  proof -
    have "sort_ephemeris eph = sort_key eph_t_min eph"
      by (rule stable_sort_by_sort_key [OF st])
    also have "\<dots> = eph"
      using sorted_eph by (rule sort_key_id_if_sorted)
    finally show ?thesis .
  qed
  ultimately show ?thesis
    using sorted_eph col perm by blast
qed

text \<open>The sample table, sorted and turned into the ephemeris.\<close>

lemma sample_ephemeris:
  "ephemeris (sort_key t_min (filtered_observations sample_observations))
     = [\<lparr>eph_ra = 1, eph_dec = 4, eph_t_min = 56000\<rparr>,
        \<lparr>eph_ra = 8, eph_dec = 9, eph_t_min = 56000\<rparr>,
        \<lparr>eph_ra = 2, eph_dec = 5, eph_t_min = 57000\<rparr>]"
  by (simp add: ephemeris_def filtered_observations_def sample_observations_def)

text \<open>The theorem with the stable insertion sort as \<open>Table.sort\<close>, on the sample table.\<close>

theorem second_sort_keeps_t_min_column_witness:
  "sorts_by t_min (sort_key t_min)
   \<and> sorts_by eph_t_min (sort_key eph_t_min)
   \<and> stable_sort_by eph_t_min (sort_key eph_t_min)
   \<and> sort_key eph_t_min (ephemeris (sort_key t_min (filtered_observations sample_observations)))
     = [\<lparr>eph_ra = 1, eph_dec = 4, eph_t_min = 56000\<rparr>,
        \<lparr>eph_ra = 8, eph_dec = 9, eph_t_min = 56000\<rparr>,
        \<lparr>eph_ra = 2, eph_dec = 5, eph_t_min = 57000\<rparr>]"
proof -
  have a: "sorts_by t_min (sort_key t_min)"
    by (rule sort_key_sorts)
  have b: "sorts_by eph_t_min (sort_key eph_t_min)"
    by (rule sort_key_sorts)
  have c: "stable_sort_by eph_t_min (sort_key eph_t_min)"
    by (rule sort_key_stable_sort)
  from second_sort_keeps_t_min_column [OF a b refl, of sample_observations] c
  have "sort_key eph_t_min (ephemeris (sort_key t_min (filtered_observations sample_observations)))
      = ephemeris (sort_key t_min (filtered_observations sample_observations))"
    by blast
  with a b c show ?thesis
    by (simp only: sample_ephemeris simp_thms)
qed

text \<open>
  C7 as stated fails: a sort that keeps its promise (ordered by \<open>t_min\<close>, same rows) may
  still exchange rows that share a \<open>t_min\<close>. With such a sort in both places, the second
  sort changes the ephemeris table of the sample.
\<close>

theorem second_sort_reorders_ties_counterexample:
  "sorts_by t_min (reversing_sort t_min)
   \<and> sorts_by eph_t_min (reversing_sort eph_t_min)
   \<and> reversing_sort eph_t_min
        (ephemeris (reversing_sort t_min (filtered_observations sample_observations)))
     \<noteq> ephemeris (reversing_sort t_min (filtered_observations sample_observations))"
proof -
  have first: "ephemeris (reversing_sort t_min (filtered_observations sample_observations))
      = [\<lparr>eph_ra = 8, eph_dec = 9, eph_t_min = 56000\<rparr>,
         \<lparr>eph_ra = 1, eph_dec = 4, eph_t_min = 56000\<rparr>,
         \<lparr>eph_ra = 2, eph_dec = 5, eph_t_min = 57000\<rparr>]"
    by (simp add: ephemeris_def filtered_observations_def sample_observations_def
        reversing_sort_def)
  have "reversing_sort eph_t_min
          (ephemeris (reversing_sort t_min (filtered_observations sample_observations)))
      = [\<lparr>eph_ra = 1, eph_dec = 4, eph_t_min = 56000\<rparr>,
         \<lparr>eph_ra = 8, eph_dec = 9, eph_t_min = 56000\<rparr>,
         \<lparr>eph_ra = 2, eph_dec = 5, eph_t_min = 57000\<rparr>]"
    by (simp only: first) (simp add: reversing_sort_def)
  then have "reversing_sort eph_t_min
          (ephemeris (reversing_sort t_min (filtered_observations sample_observations)))
      \<noteq> ephemeris (reversing_sort t_min (filtered_observations sample_observations))"
    by (simp add: first)
  then show ?thesis
    using reversing_sort_sorts [of t_min] reversing_sort_sorts [of eph_t_min] by blast
qed

section \<open>Evaluating the tests on source lines\<close>

lemma startswith_Nil: "startswith [] p = (p = [])"
  by (cases p) simp_all

lemma list_ex_startswith_Nil: "list_ex (startswith []) sts = ([] \<in> set sts)"
  by (induction sts) (auto simp: startswith_Nil)

lemma list_ex_contains_Nil: "list_ex (contains []) pats = ([] \<in> set pats)"
  by (induction pats) auto

lemma list_ex_contains_Cons:
  "list_ex (contains (x # xs)) pats
     = (list_ex (startswith (x # xs)) pats \<or> list_ex (contains xs) pats)"
  by (induction pats) auto

lemma advance_ex:
  "[] \<notin> set sts \<Longrightarrow> list_ex (startswith xs) (advance x sts) = list_ex (startswith (x # xs)) sts"
  by (induction x sts rule: advance.induct) auto

lemma Nil_mem_startswith: "[] \<in> set sts \<Longrightarrow> list_ex (startswith xs) sts"
  by (induction sts) auto

text \<open>
  The invariant of the scan: it succeeds when one of the remainders it carries is a
  prefix of what is left to read, or one of the words occurs in it.
\<close>

lemma scan_spec:
  "scan pats sts xs = (list_ex (startswith xs) sts \<or> list_ex (contains xs) pats)"
proof (induction xs arbitrary: sts)
  case Nil
  show ?case
    by (auto simp only: scan.simps list_ex_startswith_Nil list_ex_contains_Nil set_append Un_iff)
next
  case (Cons x xs)
  show ?case
  proof (cases "[] \<in> set (pats @ sts)")
    case True
    then have "list_ex (startswith (x # xs)) (pats @ sts)"
      by (rule Nil_mem_startswith)
    then have "list_ex (startswith (x # xs)) sts \<or> list_ex (contains (x # xs)) pats"
      by (auto simp: list_ex_contains_Cons)
    then have rhs: "(list_ex (startswith (x # xs)) sts \<or> list_ex (contains (x # xs)) pats) = True"
      by simp
    have step: "scan pats sts (x # xs) = scan pats [[]] xs"
      using True by simp
    have "scan pats [[]] xs = True"
      by (simp add: Cons.IH)
    with step rhs show ?thesis
      by (simp only:)
  next
    case False
    then have "scan pats sts (x # xs) = scan pats (advance x (pats @ sts)) xs"
      by simp
    also have "\<dots> = (list_ex (startswith xs) (advance x (pats @ sts)) \<or> list_ex (contains xs) pats)"
      by (rule Cons.IH)
    also have "list_ex (startswith xs) (advance x (pats @ sts))
        = list_ex (startswith (x # xs)) (pats @ sts)"
      using False by (rule advance_ex)
    finally have "scan pats sts (x # xs)
        = (list_ex (startswith (x # xs)) (pats @ sts) \<or> list_ex (contains xs) pats)" .
    then show ?thesis
      unfolding list_ex_append list_ex_contains_Cons by blast
  qed
qed

lemma mentions_scan [code]: "mentions words l = scan words [] l"
  by (simp add: scan_spec mentions_def)

lemma contains_scan [code]: "contains l sub = scan [sub] [] l"
  by (simp add: scan_spec)

lemma filter_rev_spec: "filter_rev P acc xs = rev (filter P xs) @ acc"
  by (induction xs arbitrary: acc) auto

lemma count_from_spec: "count_from P n xs = length (filter P xs) + n"
  by (induction xs arbitrary: n) auto

lemma select_code [code]: "select P xs = rev (filter_rev P [] xs)"
  by (simp add: filter_rev_spec select_def)

lemma every_code [code]: "every P xs = (count_from (\<lambda>x. \<not> P x) 0 xs = 0)"
  by (simp add: count_from_spec every_def list_all_iff filter_empty_conv)

lemma count_lines_code [code]: "count_lines P ls = count_from P 0 ls"
  by (simp add: count_from_spec count_lines_def)

section \<open>Properties of the notebooks' text\<close>

text \<open>
  C1 as stated fails: the \<open>try\<close> in \<open>getdss\<close> wraps the dictionary lookup
  \<open>plateDict[plate]\<close>, which calls nothing, so not every \<open>try\<close> block of the notebooks
  wraps one call to an archive API.
\<close>

theorem try_without_api_call_counterexample:
  "\<not> every (\<lambda>cells. every wraps_one_api_call (concat (map try_bodies cells))) notebooks"
  by code_simp

text \<open>
  C1, as amended. The notebooks have two \<open>try\<close> blocks, both in
  interm\_tesscut\_dss\_overlay, and each wraps exactly one statement: the call
  \<open>Tesscut.download_cutouts\<close>, which is a call to an archive API, and the lookup
  \<open>plateDict[plate]\<close> in \<open>getdss\<close>, which is no call. The strings \<open>retries\<close> and
  \<open>backpressure\<close> occur in no line of a code cell or a markdown cell of the notebooks,
  and in no line of \<open>_toc.yml\<close>.
\<close>

theorem try_blocks_wrap_one_statement:
  "map (\<lambda>cells. concat (map try_bodies cells)) notebooks =
     [[[''    table = Tesscut.download_cutouts(coordinates=cutout_coords, size=x, path=path)''],
       [''        vplate = plateDict[plate]'']],
      [], [], []]
   \<and> archive_call ''    table = Tesscut.download_cutouts(coordinates=cutout_coords, size=x, path=path)''
   \<and> \<not> contains ''        vplate = plateDict[plate]'' ''(''
   \<and> every (\<lambda>l. \<not> mentions [''retries'', ''backpressure''] l)
        (concat (concat notebooks) @ concat (concat markdown) @ toc_yml)"
  by code_simp

text \<open>
  C3 as stated fails: counting only the lines of code cells that are neither blank nor
  comments, not every notebook stays within 48.
\<close>

theorem code_lines_over_48_counterexample:
  "\<not> every (\<lambda>cells. count_lines is_code (concat cells) \<le> 48) notebooks"
  by code_simp

text \<open>
  C3, as amended. Summed over its code cells, interm\_tesscut\_dss\_overlay has 257
  source lines, of which 178 are neither blank nor comments; wildcard\_searches has 47
  and 41, notebook\_template 50 and 36, and the notebook of asteroid rotation solutions
  104 and 78.
\<close>

theorem code_line_counts:
  "map (\<lambda>cells. (count_lines (\<lambda>l. True) (concat cells), count_lines is_code (concat cells)))
       notebooks
     = [(257, 178), (47, 41), (50, 36), (104, 78)]"
  by code_simp

text \<open>
  C8 as stated fails: \<open>getdss\<close> is not straight-line code, it branches.
\<close>

theorem getdss_not_straight_line_counterexample:
  "\<not> every (\<lambda>cells. every straight_line (concat (map function_defs cells))) notebooks"
  by code_simp

text \<open>
  C8, as amended. No code cell of the notebooks has a \<open>class\<close> statement, and the only
  functions they define are \<open>getdss\<close> and \<open>create_plot\<close>. Neither body has a loop, a call
  of the function itself, or a \<open>global\<close> or \<open>nonlocal\<close> declaration. \<open>create_plot\<close> is
  straight-line; \<open>getdss\<close> is not: it branches at nine places
  (\<open>if\<close>, \<open>elif\<close>, \<open>else\<close>, \<open>try\<close>, \<open>except\<close>).
\<close>

theorem functions_have_no_loops:
  \<open>map (\<lambda>cells. map fst (concat (map function_defs cells))) notebooks
     = [[''getdss'', ''create_plot''], [], [], []]
   \<and> map (\<lambda>cells. select is_class (concat cells)) notebooks = [[], [], [], []]
   \<and> map (\<lambda>fn. (fst fn, select is_loop (snd fn), select keeps_state (snd fn), calls_itself fn,
              select is_branch (snd fn)))
        (concat (map function_defs interm_tesscut_dss_overlay_code))
     = [(''getdss'', [], [], False,
         [''    if height is None:'',
          ''        if width is not None:'',
          ''        else:'',
          ''    elif width is None:'',
          ''    try:'',
          ''    except KeyError:'',
          ''    if filename is None:'',
          ''    if directory:'',
          ''    if not r.content.startswith(b"SIMPLE  ="):'']),
        (''create_plot'', [], [], False, [])]
   \<and> map straight_line (concat (map function_defs interm_tesscut_dss_overlay_code))
     = [False, True]\<close>
  by code_simp

text \<open>
  C9 as stated fails: the notebook of asteroid rotation solutions imports
  \<open>astroquery.mpc\<close> in a later cell, so not every notebook has all its imports in its
  first code cell.
\<close>

theorem late_import_counterexample:
  "\<not> every begins_with_its_imports notebooks"
  by code_simp

text \<open>
  C9, as amended. The first code cell of each notebook consists only of import
  statements, IPython magic commands, comments and blank lines, and every import of the
  notebook is in that cell, except for one: the notebook of asteroid rotation solutions
  has \<open>from astroquery.mpc import MPC\<close> in a later code cell.
\<close>

theorem imports_in_first_cell_but_one:
  "every (\<lambda>cells. case cells of [] \<Rightarrow> False | first # rest \<Rightarrow> imports_cell first) notebooks
   \<and> map late_imports notebooks = [[], [], [], [''from astroquery.mpc import MPC'']]"
  by code_simp


section \<open>Properties of the GIF cells\<close>

lemma gif_name_cutout: "gif_name ''cutout.fits'' = ''cutout.gif''"
  by (simp add: gif_name_def)

text \<open>
  C4 as stated fails: the step that renders the movie is not executed on every run.
  In a world where \<open>cutout.gif\<close> is already on disk, the cell leaves the world as it is,
  nothing is rendered, and the next cell shows the older file.
\<close>

theorem gif_step_skipped_counterexample:
  "\<not> (\<forall>wld. trace (create_gif_cell (sample_libs []) ''cutout.fits'' wld)
          = trace wld @ [Save_movie ''cutout.gif''])
   \<and> create_gif_cell (sample_libs []) ''cutout.fits'' gif_world = gif_world
   \<and> display_gif_cell ''cutout.fits'' (create_gif_cell (sample_libs []) ''cutout.fits'' gif_world)
      = ([], Inr ''an older movie'')"
proof -
  have same: "create_gif_cell (sample_libs []) ''cutout.fits'' gif_world = gif_world"
    by (simp add: create_gif_cell_def gif_name_cutout gif_world_def)
  have "trace (create_gif_cell (sample_libs []) ''cutout.fits'' gif_world)
      \<noteq> trace gif_world @ [Save_movie ''cutout.gif'']"
    by (simp add: same)
  then have "\<not> (\<forall>wld. trace (create_gif_cell (sample_libs []) ''cutout.fits'' wld)
          = trace wld @ [Save_movie ''cutout.gif''])"
    by blast
  moreover have "display_gif_cell ''cutout.fits'' gif_world = ([], Inr ''an older movie'')"
    by (simp add: display_gif_cell_def gif_name_cutout gif_world_def)
  ultimately show ?thesis
    by (simp add: same)
qed

lemma file_tests_in_code:
  "map (\<lambda>cells. select (mentions [''exists'', ''isfile'']) (concat cells)) notebooks
     = [[''if not os.path.exists(gif):'', ''if not os.path.exists(gif):''], [], [], []]"
  by code_simp

text \<open>
  C4, as amended. The GIF cells of interm\_tesscut\_dss\_overlay reuse a file that is
  already on disk: when the \<open>.gif\<close> exists, \<open>save_movie\<close> is skipped and the existing file
  is shown; when it does not, \<open>save_movie\<close> is called, and the movie it writes (the
  renderer is taken to succeed) is shown. These two cells are the only place where the
  notebooks' code asks whether a file exists: no other line of a code cell mentions
  \<open>exists\<close> or \<open>isfile\<close>.
\<close>

theorem gif_cells_reuse_existing_file:
  "(files wld (gif_name tpf_filename) = Some old \<longrightarrow>
       create_gif_cell L tpf_filename wld = wld
     \<and> display_gif_cell tpf_filename (create_gif_cell L tpf_filename wld) = ([], Inr old))
   \<and> (files wld (gif_name tpf_filename) = None \<longrightarrow>
       trace (create_gif_cell L tpf_filename wld) = trace wld @ [Save_movie (gif_name tpf_filename)]
     \<and> files (create_gif_cell L tpf_filename wld)
         = (files wld)(gif_name tpf_filename \<mapsto> movie_of L tpf_filename)
     \<and> display_gif_cell tpf_filename (create_gif_cell L tpf_filename wld)
         = ([], Inr (movie_of L tpf_filename)))
   \<and> map (\<lambda>cells. select (mentions [''exists'', ''isfile'']) (concat cells)) notebooks
     = [[''if not os.path.exists(gif):'', ''if not os.path.exists(gif):''], [], [], []]"
proof -
  have reuse: "files wld (gif_name tpf_filename) = Some old \<longrightarrow>
       create_gif_cell L tpf_filename wld = wld
     \<and> display_gif_cell tpf_filename (create_gif_cell L tpf_filename wld) = ([], Inr old)"
    by (simp add: create_gif_cell_def display_gif_cell_def)
  have render: "files wld (gif_name tpf_filename) = None \<longrightarrow>
       trace (create_gif_cell L tpf_filename wld) = trace wld @ [Save_movie (gif_name tpf_filename)]
     \<and> files (create_gif_cell L tpf_filename wld)
         = (files wld)(gif_name tpf_filename \<mapsto> movie_of L tpf_filename)
     \<and> display_gif_cell tpf_filename (create_gif_cell L tpf_filename wld)
         = ([], Inr (movie_of L tpf_filename))"
    by (simp add: create_gif_cell_def display_gif_cell_def save_movie_def Let_def)
  show ?thesis
    by (intro conjI) (rule reuse, rule render, rule file_tests_in_code)
qed

text \<open>The theorem in the two worlds: with \<open>cutout.gif\<close> on disk, and with no file.\<close>

theorem gif_cells_reuse_existing_file_witness:
  "files gif_world (gif_name ''cutout.fits'') = Some ''an older movie''
   \<and> create_gif_cell (sample_libs []) ''cutout.fits'' gif_world = gif_world
   \<and> files empty_world (gif_name ''cutout.fits'') = None
   \<and> trace (create_gif_cell (sample_libs []) ''cutout.fits'' empty_world) = [Save_movie ''cutout.gif'']
   \<and> display_gif_cell ''cutout.fits'' (create_gif_cell (sample_libs []) ''cutout.fits'' empty_world)
      = ([], Inr ''GIF89a'')"
proof -
  have old: "files gif_world (gif_name ''cutout.fits'') = Some ''an older movie''"
    by (simp add: gif_name_cutout gif_world_def)
  have none: "files empty_world (gif_name ''cutout.fits'') = None"
    by (simp add: empty_world_sel)
  have movie: "movie_of (sample_libs []) ''cutout.fits'' = ''GIF89a''"
    by (simp add: sample_libs_def)
  from gif_cells_reuse_existing_file [of gif_world "''cutout.fits''" "''an older movie''" "sample_libs []"]
    old
  have a: "create_gif_cell (sample_libs []) ''cutout.fits'' gif_world = gif_world"
    by blast
  from gif_cells_reuse_existing_file [of empty_world "''cutout.fits''" "''an older movie''" "sample_libs []"]
    none
  have b: "trace (create_gif_cell (sample_libs []) ''cutout.fits'' empty_world)
        = trace empty_world @ [Save_movie (gif_name ''cutout.fits'')]"
    and c: "display_gif_cell ''cutout.fits'' (create_gif_cell (sample_libs []) ''cutout.fits'' empty_world)
        = ([], Inr (movie_of (sample_libs []) ''cutout.fits''))"
    by blast+
  from old a none b c show ?thesis
    by (simp add: gif_name_cutout empty_world_sel movie)
qed

end
